theory Spec2Isabelle
  imports Main "HOL-Library.Word"
begin

unbundle bit_operations_syntax

section \<open>The SD card driver (drivers/sdcard.c)\<close>

text \<open>
  The driver is a cooperative state machine: a function pointer
  \<open>G_SdCardStateMachine\<close> names the handler that runs on the next pass of the
  super loop, and every handler runs to completion. The embedding keeps the
  module's static variables as the fields of one record, passes that record
  through every function, and turns each handler into a function from the
  state before the call to the state after it.

  The driver talks to four collaborators that are declared in headers outside
  the translated file: the SSP (serial bus) driver, the message status query,
  the millisecond clock with \<open>IsTimeUp\<close>, and the card-detect pin. What they
  answer during one call of a handler is an input of that call (record
  \<open>sd_env\<close>); what the driver asks of them is appended to a log kept in the
  state (\<open>io_log\<close>, most recent call first).
\<close>

type_synonym u8 = "8 word"
type_synonym u32 = "32 word"

subsection \<open>Types\<close>

datatype SdCardStateType =
  SD_NO_CARD | SD_CARD_ERROR | SD_IDLE | SD_READING | SD_DATA_READY | SD_WRITING

text \<open>The values a state-machine function pointer can hold: the address of one
  of the handlers, or the null pointer a zero-initialised static starts with.\<close>

datatype fnCode_type =
    P_NULL
  | P_SdIdleNoCard
  | P_SdCardDummies
  | P_SdCardResponseCMD0
  | P_SdCardResponseCMD8
  | P_SdCardReadCMD8
  | P_SdCardACMD41
  | P_SdCardResponseACMD41
  | P_SdCardResponseCMD58
  | P_SdCardResponseCMD16
  | P_SdCardReadCMD58
  | P_SdCardWaitReady
  | P_SdCardWaitCommand
  | P_SdCardWaitSSP
  | P_SdCardReadyIdle
  | P_SdCardResponseCMD17
  | P_SdCardWaitStartToken
  | P_SdCardDataTransfer
  | P_SdFailedDataTransfer
  | P_SdError

text \<open>The values of \<open>SD_NextCommand\<close>: the address of one of the seven command
  arrays, or null.\<close>

datatype sd_cmd =
  P_NO_CMD | P_CMD0 | P_CMD8 | P_CMD16 | P_CMD17 | P_CMD55 | P_CMD58 | P_ACMD41

datatype LedRateType = LED_OFF | LED_1HZ | LED_8HZ | LED_ON

text \<open>Modelled from the spec: the message status type is declared outside the
  translated sources; the driver only compares against \<open>COMPLETE\<close>, and the
  spec names the two answers of the status query \<open>Pending\<close> and \<open>Complete\<close>.\<close>

datatype MessageStateType = PENDING | COMPLETE

text \<open>Calls that leave the driver, in the order of the source.\<close>

datatype io_call =
    SspRequest
  | SspRelease "nat option"
  | SspAssertCS
  | SspDeAssertCS
  | SspReadByte
  | SspReadData u32
  | SspWriteData u32 sd_cmd "u8 list"
  | LedRequest LedRateType
  | DebugPrintf string
  | SD_POWER_ON

subsection \<open>Constants of configuration.h\<close>

text \<open>
  The header that defines the driver's constants is not among the translated
  sources, so every constant is a parameter. The leading underscore of the flag
  masks (\<open>_SD_CARD_INSERTED\<close>, ...) is dropped, since an identifier cannot start
  with one. \<open>IsTimeUp\<close> is the time predicate the driver is linked with; its
  arguments are the current time, the reference time and the period (the
  driver always passes \<open>NO_RESET_TARGET_TIMER\<close>, so the reference is not
  modified by the call).
\<close>

record sd_config =
  SDCARD_RX_BUFFER_SIZE :: nat
  SD_CMD_SIZE :: u32
  SD_WAKEUP_BYTES :: u32
  SD_CMD_RETRIES :: u8
  SD_STATUS_IDLE :: u8
  SD_STATUS_READY :: u8
  SD_VHS_VALUE :: u8
  SD_CHECK_PATTERN :: u8
  TOKEN_START_BLOCK :: u8
  SD_OCR_CCS_BIT :: u8
  SD_CARD_INSERTED :: u32
  SD_TYPE_SD1 :: u32
  SD_TYPE_SD2 :: u32
  SD_CARD_HC :: u32
  SD_CLEAR_CARD_TYPE_BITS :: u32
  SD_SPI_WAIT_TIME_MS :: u32
  SD_WAIT_TIME :: u32
  SD_READ_TOKEN_MS :: u32
  SD_SECTOR_READ_TIMEOUT_MS :: u32
  SD_ERROR_TIMEOUT :: u8
  SD_ERROR_CARD_VOLTAGE :: u8
  SD_ERROR_BAD_RESPONSE :: u8
  SD_ERROR_NO_TOKEN :: u8
  SD_ERROR_NO_SD_TOKEN :: u8
  SD_HOST_CMD :: u8
  SD_CMD0 :: u8
  SD_CMD8 :: u8
  SD_CMD16 :: u8
  SD_CMD17 :: u8
  SD_CMD55 :: u8
  SD_CMD58 :: u8
  SD_ACMD41 :: u8
  SD_CMD0_CRC :: u8
  SD_CMD8_CRC :: u8
  SD_NO_CRC :: u8
  SSP_DUMMY_BYTE :: u8
  IsTimeUp :: "u32 \<Rightarrow> u32 \<Rightarrow> u32 \<Rightarrow> bool"

text \<open>Modelled from the spec: \<open>BIT6\<close> and \<open>BIT7\<close> are macros of a header
  outside the translated sources. The spec identifies the bit that
  \<open>SdCardACMD41\<close> sets with bit 30 of the four-byte argument, which is bit 6
  of argument byte 1, and the bit that \<open>SdCardWaitCommand\<close> tests with the top
  bit of the response byte.\<close>

definition BIT6 :: u8 where
  "BIT6 = 0x40"

definition BIT7 :: u8 where
  "BIT7 = 0x80"

subsection \<open>The static variables of the module\<close>

text \<open>
  The receive buffer is a region of memory addressed from its first byte; the
  two pointers into it are offsets from \<open>&SD_au8RxBuffer[0]\<close>. \<open>SD_Ssp\<close> is the
  pointer returned by \<open>SspRequest\<close> (\<open>None\<close> is \<open>NULL\<close>). \<open>u8Retries\<close> is the
  static local of \<open>SdCardWaitCommand\<close>. Of \<open>SD_CardStatusLed\<close> only the blink
  rate changes after initialisation.
\<close>

record sd_state =
  G_SdCardStateMachine :: fnCode_type
  SD_u32Flags :: u32
  SD_CardState :: SdCardStateType
  SD_u8ErrorCode :: u8
  SD_WaitReturnState :: fnCode_type
  SD_NextCommand :: sd_cmd
  SD_CardStatusLed :: LedRateType
  SD_Ssp :: "nat option"
  SD_au8RxBuffer :: "nat \<Rightarrow> u8"
  SD_pu8RxBufferNextByte :: nat
  SD_pu8RxBufferParser :: nat
  SD_u32Timeout :: u32
  SD_u32CurrentMsgToken :: u32
  SD_u32Address :: u32
  SD_au8CMD17 :: "u8 list"
  SD_au8ACMD41 :: "u8 list"
  u8Retries :: u8
  io_log :: "io_call list"

text \<open>What the collaborators answer during one call of a handler. No handler
  submits more than one transfer or asks for the bus more than once per call,
  so one token and one request result suffice.\<close>

record sd_env =
  FIOPIN_SD_DET :: bool
  G_u32SystemTime1ms :: u32
  SspRequest_result :: "nat option"
  Ssp_token :: u32
  QueryMessageStatus :: "u32 \<Rightarrow> MessageStateType"

definition io :: "io_call \<Rightarrow> sd_state \<Rightarrow> sd_state" where
  "io c s = s\<lparr>io_log := c # io_log s\<rparr>"

definition rx_at_parser :: "sd_state \<Rightarrow> u8" where
  "rx_at_parser s = SD_au8RxBuffer s (SD_pu8RxBufferParser s)"

text \<open>The command arrays. Five are never written after their initialisation;
  \<open>SD_au8CMD17\<close> and \<open>SD_au8ACMD41\<close> are written by the handlers and live in
  the state, starting from the initialisers below.\<close>

definition SD_au8CMD0 :: "sd_config \<Rightarrow> u8 list" where
  "SD_au8CMD0 cfg = [SD_HOST_CMD cfg OR SD_CMD0 cfg, 0, 0, 0, 0, SD_CMD0_CRC cfg, SSP_DUMMY_BYTE cfg]"

definition SD_au8CMD8 :: "sd_config \<Rightarrow> u8 list" where
  "SD_au8CMD8 cfg = [SD_HOST_CMD cfg OR SD_CMD8 cfg, 0, 0, SD_VHS_VALUE cfg, SD_CHECK_PATTERN cfg,
                     SD_CMD8_CRC cfg, SSP_DUMMY_BYTE cfg]"

definition SD_au8CMD16 :: "sd_config \<Rightarrow> u8 list" where
  "SD_au8CMD16 cfg = [SD_HOST_CMD cfg OR SD_CMD16 cfg, 0, 0, 0x02, 0x00, SD_NO_CRC cfg, SSP_DUMMY_BYTE cfg]"

definition SD_au8CMD17_init :: "sd_config \<Rightarrow> u8 list" where
  "SD_au8CMD17_init cfg = [SD_HOST_CMD cfg OR SD_CMD17 cfg, 0, 0, 0, 0, SD_NO_CRC cfg, SSP_DUMMY_BYTE cfg]"

definition SD_au8CMD55 :: "sd_config \<Rightarrow> u8 list" where
  "SD_au8CMD55 cfg = [SD_HOST_CMD cfg OR SD_CMD55 cfg, 0, 0, 0, 0, SD_NO_CRC cfg, SSP_DUMMY_BYTE cfg]"

definition SD_au8CMD58 :: "sd_config \<Rightarrow> u8 list" where
  "SD_au8CMD58 cfg = [SD_HOST_CMD cfg OR SD_CMD58 cfg, 0, 0, 0, 0, SD_NO_CRC cfg, SSP_DUMMY_BYTE cfg]"

definition SD_au8ACMD41_init :: "sd_config \<Rightarrow> u8 list" where
  "SD_au8ACMD41_init cfg = [SD_HOST_CMD cfg OR SD_ACMD41 cfg, 0, 0, 0, 0, SD_NO_CRC cfg, SSP_DUMMY_BYTE cfg]"

text \<open>The bytes a command pointer addresses at the moment of a call.\<close>

definition frame_of :: "sd_config \<Rightarrow> sd_state \<Rightarrow> sd_cmd \<Rightarrow> u8 list" where
  "frame_of cfg s c =
     (case c of
        P_NO_CMD \<Rightarrow> []
      | P_CMD0 \<Rightarrow> SD_au8CMD0 cfg
      | P_CMD8 \<Rightarrow> SD_au8CMD8 cfg
      | P_CMD16 \<Rightarrow> SD_au8CMD16 cfg
      | P_CMD17 \<Rightarrow> SD_au8CMD17 s
      | P_CMD55 \<Rightarrow> SD_au8CMD55 cfg
      | P_CMD58 \<Rightarrow> SD_au8CMD58 cfg
      | P_ACMD41 \<Rightarrow> SD_au8ACMD41 s)"

text \<open>The debug strings of the module (\<open>\\n\\r\<close> is line feed, carriage return).\<close>

definition nl_cr :: string where
  "nl_cr = [CHR 0x0A, CHR 0x0D]"

definition SD_au8SspRequestFailed :: string where
  "SD_au8SspRequestFailed = ''SdCard denied SSP'' @ nl_cr"

definition SD_au8CardReady :: string where
  "SD_au8CardReady = ''SD ready'' @ nl_cr"

definition SD_au8CardError :: string where
  "SD_au8CardError = ''SD error: ''"

definition SD_au8CardError0 :: string where
  "SD_au8CardError0 = ''UNKNOWN'' @ nl_cr"

definition SD_au8CardError1 :: string where
  "SD_au8CardError1 = ''TIMEOUT'' @ nl_cr"

definition SD_au8CardError2 :: string where
  "SD_au8CardError2 = ''CARD_VOLTAGE'' @ nl_cr @ '' ''"

definition SD_au8CardError3 :: string where
  "SD_au8CardError3 = ''BAD_RESPONSE'' @ nl_cr @ '' ''"

definition SD_au8CardError4 :: string where
  "SD_au8CardError4 = ''NO_TOKEN'' @ nl_cr"

definition SD_au8CardError5 :: string where
  "SD_au8CardError5 = ''NO_SD_TOKEN'' @ nl_cr"

subsection \<open>Public functions\<close>

definition SdIsCardInserted :: "sd_config \<Rightarrow> sd_env \<Rightarrow> sd_state \<Rightarrow> bool \<times> sd_state" where
  "SdIsCardInserted cfg env s =
     (if FIOPIN_SD_DET env
      then (False, s\<lparr>SD_u32Flags := SD_u32Flags s AND NOT (SD_CARD_INSERTED cfg),
                     SD_CardState := SD_NO_CARD\<rparr>)
      else (True, s\<lparr>SD_u32Flags := SD_u32Flags s OR SD_CARD_INSERTED cfg\<rparr>))"

definition SdGetStatus :: "sd_state \<Rightarrow> SdCardStateType" where
  "SdGetStatus s = SD_CardState s"

definition SdReadBlock :: "sd_config \<Rightarrow> u32 \<Rightarrow> sd_state \<Rightarrow> bool \<times> sd_state" where
  "SdReadBlock cfg u32SectorAddress s =
     (if SD_CardState s = SD_IDLE
      then (True,
            s\<lparr>SD_u32Address :=
                 (if SD_u32Flags s AND SD_CARD_HC cfg = 0
                  then u32SectorAddress * 512 else u32SectorAddress),
              SD_CardState := SD_READING\<rparr>)
      else (False, s))"

definition SdWriteBlock :: "u32 \<Rightarrow> sd_state \<Rightarrow> bool \<times> sd_state" where
  "SdWriteBlock u32BlockAddress s = (False, s)"

text \<open>The copy loop of \<open>SdGetReadData\<close>: \<open>k\<close> iterations are left, \<open>i\<close> is the
  loop counter, and the destination pointer has been incremented \<open>i\<close> times, so
  it addresses offset \<open>i\<close> of the client's memory \<open>dst\<close>.\<close>

fun copy_loop :: "(nat \<Rightarrow> u8) \<Rightarrow> nat \<Rightarrow> nat \<Rightarrow> (nat \<Rightarrow> u8) \<Rightarrow> (nat \<Rightarrow> u8)" where
  "copy_loop buf 0 i dst = dst"
| "copy_loop buf (Suc k) i dst = copy_loop buf k (Suc i) (dst(i := buf i))"

definition SdGetReadData :: "(nat \<Rightarrow> u8) \<Rightarrow> sd_state \<Rightarrow> bool \<times> (nat \<Rightarrow> u8) \<times> sd_state" where
  "SdGetReadData pu8Destination s =
     (if SD_CardState s = SD_DATA_READY
      then (True, copy_loop (SD_au8RxBuffer s) 512 0 pu8Destination,
            s\<lparr>SD_CardState := SD_IDLE\<rparr>)
      else (False, pu8Destination, s))"

subsection \<open>Private functions\<close>

definition SdCommand :: "sd_config \<Rightarrow> sd_env \<Rightarrow> sd_cmd \<Rightarrow> sd_state \<Rightarrow> sd_state" where
  "SdCommand cfg env pau8Command s =
     (let s1 = io SspDeAssertCS (s\<lparr>SD_NextCommand := pau8Command\<rparr>);
          s2 = s1\<lparr>SD_u32Timeout := G_u32SystemTime1ms env\<rparr>;
          s3 = (io SspReadByte s2)\<lparr>SD_u32CurrentMsgToken := Ssp_token env\<rparr>
      in if SD_u32CurrentMsgToken s3 \<noteq> 0
         then io SspAssertCS (s3\<lparr>G_SdCardStateMachine := P_SdCardWaitReady\<rparr>)
         else s3\<lparr>SD_u8ErrorCode := SD_ERROR_NO_TOKEN cfg,
                 G_SdCardStateMachine := P_SdError\<rparr>)"

definition CheckTimeout :: "sd_config \<Rightarrow> sd_env \<Rightarrow> u32 \<Rightarrow> sd_state \<Rightarrow> sd_state" where
  "CheckTimeout cfg env u32Time s =
     (if IsTimeUp cfg (G_u32SystemTime1ms env) (SD_u32Timeout s) u32Time
      then s\<lparr>SD_u8ErrorCode := SD_ERROR_TIMEOUT cfg, G_SdCardStateMachine := P_SdError\<rparr>
      else s)"

text \<open>The loop of \<open>AdvanceSD_pu8RxBufferParser\<close>: the pointer is incremented
  and, when it equals \<open>&SD_au8RxBuffer[SDCARD_RX_BUFFER_SIZE]\<close>, set back to
  the first byte. The first argument is the buffer size, the second the number
  of iterations left.\<close>

fun advance_loop :: "nat \<Rightarrow> nat \<Rightarrow> nat \<Rightarrow> nat" where
  "advance_loop sz 0 p = p"
| "advance_loop sz (Suc k) p = advance_loop sz k (if Suc p = sz then 0 else Suc p)"

definition AdvanceSD_pu8RxBufferParser :: "sd_config \<Rightarrow> u32 \<Rightarrow> sd_state \<Rightarrow> sd_state" where
  "AdvanceSD_pu8RxBufferParser cfg u32NumBytes s =
     s\<lparr>SD_pu8RxBufferParser :=
         advance_loop (SDCARD_RX_BUFFER_SIZE cfg) (unat u32NumBytes) (SD_pu8RxBufferParser s)\<rparr>"

definition FlushSdRxBuffer :: "sd_state \<Rightarrow> sd_state" where
  "FlushSdRxBuffer s = s\<lparr>SD_pu8RxBufferParser := SD_pu8RxBufferNextByte s\<rparr>"

subsection \<open>Initialisation\<close>

text \<open>
  The statics before \<open>SdCardInitialize\<close>: C zero-initialises them, except the
  two writable command arrays and the retry counter, which have initialisers.
  Modelled from the spec: the enumeration \<open>SdCardStateType\<close> is declared outside
  the translated sources; the spec lists \<open>NoCard\<close> first, so that is the value
  a zeroed \<open>SD_CardState\<close> has.
\<close>

definition power_on :: "sd_config \<Rightarrow> sd_state" where
  "power_on cfg =
     \<lparr>G_SdCardStateMachine = P_NULL,
      SD_u32Flags = 0,
      SD_CardState = SD_NO_CARD,
      SD_u8ErrorCode = 0,
      SD_WaitReturnState = P_NULL,
      SD_NextCommand = P_NO_CMD,
      SD_CardStatusLed = LED_OFF,
      SD_Ssp = None,
      SD_au8RxBuffer = (\<lambda>i. 0),
      SD_pu8RxBufferNextByte = 0,
      SD_pu8RxBufferParser = 0,
      SD_u32Timeout = 0,
      SD_u32CurrentMsgToken = 0,
      SD_u32Address = 0,
      SD_au8CMD17 = SD_au8CMD17_init cfg,
      SD_au8ACMD41 = SD_au8ACMD41_init cfg,
      u8Retries = SD_CMD_RETRIES cfg,
      io_log = []\<rparr>"

definition SdCardInitialize :: "sd_config \<Rightarrow> sd_state \<Rightarrow> sd_state" where
  "SdCardInitialize cfg s =
     (let s1 = s\<lparr>SD_au8RxBuffer :=
                    (\<lambda>i. if i < SDCARD_RX_BUFFER_SIZE cfg then 0 else SD_au8RxBuffer s i)\<rparr>;
          s2 = s1\<lparr>SD_pu8RxBufferNextByte := 0, SD_pu8RxBufferParser := 0\<rparr>;
          s3 = io (LedRequest LED_OFF) (s2\<lparr>SD_CardStatusLed := LED_OFF\<rparr>);
          s4 = (io SD_POWER_ON s3)\<lparr>G_SdCardStateMachine := P_SdIdleNoCard\<rparr>
      in io (DebugPrintf (''SdCard task initialized'' @ nl_cr)) s4)"

subsection \<open>State machine handlers\<close>

text \<open>The end of a successful initialisation, written out twice in the source
  (in \<open>SdCardResponseCMD16\<close> and in \<open>SdCardReadCMD58\<close>).\<close>

definition card_is_ready :: "sd_state \<Rightarrow> sd_state" where
  "card_is_ready s =
     (let s1 = io (SspRelease (SD_Ssp s)) (io SspDeAssertCS s);
          s2 = s1\<lparr>SD_CardState := SD_IDLE, SD_CardStatusLed := LED_ON\<rparr>;
          s3 = io (DebugPrintf SD_au8CardReady) (io (LedRequest LED_ON) s2)
      in s3\<lparr>G_SdCardStateMachine := P_SdCardReadyIdle\<rparr>)"

definition SdIdleNoCard :: "sd_config \<Rightarrow> sd_env \<Rightarrow> sd_state \<Rightarrow> sd_state" where
  "SdIdleNoCard cfg env s =
     (case SdIsCardInserted cfg env s of
        (False, s0) \<Rightarrow> s0
      | (True, s0) \<Rightarrow>
          (let s1 = (io SspRequest s0)\<lparr>SD_Ssp := SspRequest_result env\<rparr>
           in if SD_Ssp s1 = None
              then (io (DebugPrintf SD_au8SspRequestFailed) s1)
                     \<lparr>SD_u32Timeout := G_u32SystemTime1ms env,
                      SD_WaitReturnState := P_SdIdleNoCard,
                      G_SdCardStateMachine := P_SdCardWaitSSP\<rparr>
              else
                (let s2 = FlushSdRxBuffer
                            (s1\<lparr>SD_u32Flags := SD_u32Flags s1 AND SD_CLEAR_CARD_TYPE_BITS cfg\<rparr>);
                     s3 = io (LedRequest LED_1HZ) (s2\<lparr>SD_CardStatusLed := LED_1HZ\<rparr>);
                     s4 = (io (SspReadData (SD_WAKEUP_BYTES cfg)) s3)
                            \<lparr>SD_u32CurrentMsgToken := Ssp_token env\<rparr>
                 in if SD_u32CurrentMsgToken s4 \<noteq> 0
                    then (io SspAssertCS s4)\<lparr>G_SdCardStateMachine := P_SdCardDummies\<rparr>
                    else s4\<lparr>SD_u8ErrorCode := SD_ERROR_NO_TOKEN cfg,
                            G_SdCardStateMachine := P_SdError\<rparr>)))"

definition SdCardDummies :: "sd_config \<Rightarrow> sd_env \<Rightarrow> sd_state \<Rightarrow> sd_state" where
  "SdCardDummies cfg env s =
     (if QueryMessageStatus env (SD_u32CurrentMsgToken s) = COMPLETE
      then (SdCommand cfg env P_CMD0 (AdvanceSD_pu8RxBufferParser cfg (SD_WAKEUP_BYTES cfg) s))
             \<lparr>SD_WaitReturnState := P_SdCardResponseCMD0\<rparr>
      else s)"

definition SdCardResponseCMD0 :: "sd_config \<Rightarrow> sd_env \<Rightarrow> sd_state \<Rightarrow> sd_state" where
  "SdCardResponseCMD0 cfg env s =
     AdvanceSD_pu8RxBufferParser cfg 1
       (if rx_at_parser s = SD_STATUS_IDLE cfg
        then (SdCommand cfg env P_CMD8 s)\<lparr>SD_WaitReturnState := P_SdCardResponseCMD8\<rparr>
        else s\<lparr>SD_u8ErrorCode := SD_ERROR_BAD_RESPONSE cfg,
               G_SdCardStateMachine := P_SdError\<rparr>)"

definition SdCardResponseCMD8 :: "sd_config \<Rightarrow> sd_env \<Rightarrow> sd_state \<Rightarrow> sd_state" where
  "SdCardResponseCMD8 cfg env s =
     AdvanceSD_pu8RxBufferParser cfg 1
       (if rx_at_parser s = SD_STATUS_IDLE cfg
        then (let s1 = s\<lparr>SD_u32Flags := SD_u32Flags s OR SD_TYPE_SD2 cfg\<rparr>;
                  s2 = (io (SspReadData 4) s1)\<lparr>SD_u32CurrentMsgToken := Ssp_token env\<rparr>
              in if SD_u32CurrentMsgToken s2 \<noteq> 0
                 then s2\<lparr>G_SdCardStateMachine := P_SdCardReadCMD8\<rparr>
                 else s2\<lparr>SD_u8ErrorCode := SD_ERROR_NO_TOKEN cfg,
                         G_SdCardStateMachine := P_SdError\<rparr>)
        else (SdCommand cfg env P_CMD55 s)\<lparr>SD_WaitReturnState := P_SdCardACMD41\<rparr>)"

definition SdCardReadCMD8 :: "sd_config \<Rightarrow> sd_env \<Rightarrow> sd_state \<Rightarrow> sd_state" where
  "SdCardReadCMD8 cfg env s =
     CheckTimeout cfg env (SD_SPI_WAIT_TIME_MS cfg)
       (if QueryMessageStatus env (SD_u32CurrentMsgToken s) = COMPLETE
        then (let s1 = AdvanceSD_pu8RxBufferParser cfg 2 s
              in if rx_at_parser s1 = SD_VHS_VALUE cfg
                 then (let s2 = AdvanceSD_pu8RxBufferParser cfg 1 s1;
                           s3 = (if rx_at_parser s2 = SD_CHECK_PATTERN cfg
                                 then (SdCommand cfg env P_CMD55 s2)
                                        \<lparr>SD_WaitReturnState := P_SdCardACMD41\<rparr>
                                 else s2)
                       in AdvanceSD_pu8RxBufferParser cfg 1 s3)
                 else s1\<lparr>SD_u8ErrorCode := SD_ERROR_CARD_VOLTAGE cfg,
                         G_SdCardStateMachine := P_SdError\<rparr>)
        else s)"

definition SdCardACMD41 :: "sd_config \<Rightarrow> sd_env \<Rightarrow> sd_state \<Rightarrow> sd_state" where
  "SdCardACMD41 cfg env s =
     AdvanceSD_pu8RxBufferParser cfg 1
       (if rx_at_parser s = SD_STATUS_IDLE cfg
        then (let s1 = (if SD_u32Flags s AND SD_TYPE_SD2 cfg \<noteq> 0
                        then s\<lparr>SD_au8ACMD41 := (SD_au8ACMD41 s)[1 := (SD_au8ACMD41 s ! 1) OR BIT6]\<rparr>
                        else s)
              in (SdCommand cfg env P_ACMD41 s1)\<lparr>SD_WaitReturnState := P_SdCardResponseACMD41\<rparr>)
        else s\<lparr>SD_u8ErrorCode := SD_ERROR_BAD_RESPONSE cfg,
               G_SdCardStateMachine := P_SdError\<rparr>)"

definition SdCardResponseACMD41 :: "sd_config \<Rightarrow> sd_env \<Rightarrow> sd_state \<Rightarrow> sd_state" where
  "SdCardResponseACMD41 cfg env s =
     AdvanceSD_pu8RxBufferParser cfg 1
       (if rx_at_parser s = SD_STATUS_READY cfg
        then (if SD_u32Flags s AND SD_TYPE_SD2 cfg \<noteq> 0
              then (SdCommand cfg env P_CMD58 s)\<lparr>SD_WaitReturnState := P_SdCardResponseCMD58\<rparr>
              else (SdCommand cfg env P_CMD16 (s\<lparr>SD_u32Flags := SD_u32Flags s OR SD_TYPE_SD1 cfg\<rparr>))
                     \<lparr>SD_WaitReturnState := P_SdCardResponseCMD16\<rparr>)
        else (SdCommand cfg env P_CMD55 s)\<lparr>SD_WaitReturnState := P_SdCardACMD41\<rparr>)"

definition SdCardResponseCMD58 :: "sd_config \<Rightarrow> sd_env \<Rightarrow> sd_state \<Rightarrow> sd_state" where
  "SdCardResponseCMD58 cfg env s =
     AdvanceSD_pu8RxBufferParser cfg 1
       (if rx_at_parser s = SD_STATUS_READY cfg
        then (let s1 = (io (SspReadData 4) s)\<lparr>SD_u32CurrentMsgToken := Ssp_token env\<rparr>
              in if SD_u32CurrentMsgToken s1 \<noteq> 0
                 then s1\<lparr>G_SdCardStateMachine := P_SdCardReadCMD58\<rparr>
                 else s1\<lparr>SD_u8ErrorCode := SD_ERROR_NO_TOKEN cfg,
                         G_SdCardStateMachine := P_SdError\<rparr>)
        else s\<lparr>SD_u8ErrorCode := SD_ERROR_BAD_RESPONSE cfg,
               G_SdCardStateMachine := P_SdError\<rparr>)"

definition SdCardResponseCMD16 :: "sd_config \<Rightarrow> sd_env \<Rightarrow> sd_state \<Rightarrow> sd_state" where
  "SdCardResponseCMD16 cfg env s =
     AdvanceSD_pu8RxBufferParser cfg 1
       (if rx_at_parser s = SD_STATUS_READY cfg
        then card_is_ready s
        else s\<lparr>SD_u8ErrorCode := SD_ERROR_BAD_RESPONSE cfg,
               G_SdCardStateMachine := P_SdError\<rparr>)"

definition SdCardReadCMD58 :: "sd_config \<Rightarrow> sd_env \<Rightarrow> sd_state \<Rightarrow> sd_state" where
  "SdCardReadCMD58 cfg env s =
     CheckTimeout cfg env (SD_SPI_WAIT_TIME_MS cfg)
       (if QueryMessageStatus env (SD_u32CurrentMsgToken s) = COMPLETE
        then (let s1 = s\<lparr>SD_u32Flags := SD_u32Flags s AND NOT (SD_CARD_HC cfg)\<rparr>
              in AdvanceSD_pu8RxBufferParser cfg 4
                   (if rx_at_parser s1 AND SD_OCR_CCS_BIT cfg \<noteq> 0
                    then card_is_ready (s1\<lparr>SD_u32Flags := SD_u32Flags s1 OR SD_CARD_HC cfg\<rparr>)
                    else (SdCommand cfg env P_CMD16 s1)
                           \<lparr>SD_WaitReturnState := P_SdCardResponseCMD16\<rparr>))
        else s)"

definition SdCardWaitReady :: "sd_config \<Rightarrow> sd_env \<Rightarrow> sd_state \<Rightarrow> sd_state" where
  "SdCardWaitReady cfg env s =
     CheckTimeout cfg env (SD_SPI_WAIT_TIME_MS cfg)
       (if QueryMessageStatus env (SD_u32CurrentMsgToken s) = COMPLETE
        then (if rx_at_parser s \<noteq> 0xFF
              then (let s1 = (io SspReadByte s)\<lparr>SD_u32CurrentMsgToken := Ssp_token env\<rparr>;
                        s2 = (if SD_u32CurrentMsgToken s1 = 0
                              then s1\<lparr>SD_u8ErrorCode := SD_ERROR_NO_TOKEN cfg,
                                      G_SdCardStateMachine := P_SdError\<rparr>
                              else s1)
                    in AdvanceSD_pu8RxBufferParser cfg 1 s2)
              else (let s1 = (io (SspWriteData (SD_CMD_SIZE cfg) (SD_NextCommand s)
                                     (frame_of cfg s (SD_NextCommand s))) s)
                               \<lparr>SD_u32CurrentMsgToken := Ssp_token env\<rparr>;
                        s2 = AdvanceSD_pu8RxBufferParser cfg (SD_CMD_SIZE cfg) s1
                    in s2\<lparr>SD_u32Timeout := G_u32SystemTime1ms env,
                          G_SdCardStateMachine := P_SdCardWaitCommand\<rparr>))
        else s)"

definition SdCardWaitCommand :: "sd_config \<Rightarrow> sd_env \<Rightarrow> sd_state \<Rightarrow> sd_state" where
  "SdCardWaitCommand cfg env s =
     (let s1 = (if QueryMessageStatus env (SD_u32CurrentMsgToken s) = COMPLETE
                then (if rx_at_parser s AND BIT7 \<noteq> 0 \<and> u8Retries s \<noteq> 0
                      then (let s2 = s\<lparr>u8Retries := u8Retries s - 1\<rparr>;
                                s3 = (io SspReadByte s2)\<lparr>SD_u32CurrentMsgToken := Ssp_token env\<rparr>;
                                s4 = (if SD_u32CurrentMsgToken s3 = 0
                                      then s3\<lparr>SD_u8ErrorCode := SD_ERROR_NO_TOKEN cfg,
                                              G_SdCardStateMachine := P_SdError\<rparr>
                                      else s3)
                            in AdvanceSD_pu8RxBufferParser cfg 1 s4)
                      else s\<lparr>u8Retries := SD_CMD_RETRIES cfg,
                             G_SdCardStateMachine := SD_WaitReturnState s\<rparr>)
                else s)
      in if IsTimeUp cfg (G_u32SystemTime1ms env) (SD_u32Timeout s1) (SD_WAIT_TIME cfg)
         then s1\<lparr>u8Retries := SD_CMD_RETRIES cfg,
                 SD_u8ErrorCode := SD_ERROR_TIMEOUT cfg,
                 G_SdCardStateMachine := P_SdError\<rparr>
         else s1)"

definition SdCardWaitSSP :: "sd_config \<Rightarrow> sd_env \<Rightarrow> sd_state \<Rightarrow> sd_state" where
  "SdCardWaitSSP cfg env s =
     (if IsTimeUp cfg (G_u32SystemTime1ms env) (SD_u32Timeout s) (SD_SPI_WAIT_TIME_MS cfg)
      then (io (LedRequest LED_OFF) (s\<lparr>SD_CardStatusLed := LED_OFF\<rparr>))
             \<lparr>G_SdCardStateMachine := SD_WaitReturnState s\<rparr>
      else s)"

definition SdCardReadyIdle :: "sd_config \<Rightarrow> sd_env \<Rightarrow> sd_state \<Rightarrow> sd_state" where
  "SdCardReadyIdle cfg env s =
     (let s1 = (case SdIsCardInserted cfg env s of
                  (True, s0) \<Rightarrow> s0
                | (False, s0) \<Rightarrow>
                    (io (LedRequest LED_OFF) (s0\<lparr>SD_CardStatusLed := LED_OFF\<rparr>))
                      \<lparr>SD_u32Flags := SD_u32Flags s0 AND SD_CLEAR_CARD_TYPE_BITS cfg,
                       SD_u32Timeout := G_u32SystemTime1ms env,
                       SD_WaitReturnState := P_SdIdleNoCard,
                       G_SdCardStateMachine := P_SdCardWaitSSP\<rparr>)
      in if SD_CardState s1 = SD_WRITING \<or> SD_CardState s1 = SD_READING
         then (let s2 = (io SspRequest s1)\<lparr>SD_Ssp := SspRequest_result env\<rparr>
               in if SD_Ssp s2 = None
                  then (io (DebugPrintf SD_au8SspRequestFailed) s2)
                         \<lparr>SD_u32Timeout := G_u32SystemTime1ms env,
                          SD_WaitReturnState := P_SdCardReadyIdle,
                          G_SdCardStateMachine := P_SdCardWaitSSP\<rparr>
                  else if SD_CardState s2 = SD_WRITING
                  then s2\<lparr>G_SdCardStateMachine := P_SdCardReadyIdle, SD_CardState := SD_IDLE\<rparr>
                  else (let a = SD_u32Address s2;
                            s3 = s2\<lparr>SD_au8CMD17 :=
                                      (SD_au8CMD17 s2)
                                        [1 := ucast (drop_bit 24 a),
                                         2 := ucast (drop_bit 16 a),
                                         3 := ucast (drop_bit 8 a),
                                         4 := ucast a]\<rparr>
                        in (SdCommand cfg env P_CMD17 s3)
                             \<lparr>SD_WaitReturnState := P_SdCardResponseCMD17\<rparr>))
         else s1)"

definition SdCardResponseCMD17 :: "sd_config \<Rightarrow> sd_env \<Rightarrow> sd_state \<Rightarrow> sd_state" where
  "SdCardResponseCMD17 cfg env s =
     AdvanceSD_pu8RxBufferParser cfg 1
       (if rx_at_parser s = SD_STATUS_READY cfg
        then ((io SspReadByte s)\<lparr>SD_u32CurrentMsgToken := Ssp_token env\<rparr>)
               \<lparr>SD_u32Timeout := G_u32SystemTime1ms env,
                G_SdCardStateMachine := P_SdCardWaitStartToken\<rparr>
        else s\<lparr>SD_u8ErrorCode := SD_ERROR_BAD_RESPONSE cfg,
               G_SdCardStateMachine := P_SdFailedDataTransfer\<rparr>)"

definition SdCardWaitStartToken :: "sd_config \<Rightarrow> sd_env \<Rightarrow> sd_state \<Rightarrow> sd_state" where
  "SdCardWaitStartToken cfg env s =
     (let s1 = (if QueryMessageStatus env (SD_u32CurrentMsgToken s) = COMPLETE
                then (if rx_at_parser s = TOKEN_START_BLOCK cfg
                      then (let s2 = s\<lparr>SD_pu8RxBufferNextByte := 0, SD_pu8RxBufferParser := 0\<rparr>
                            in ((io (SspReadData 514) s2)\<lparr>SD_u32CurrentMsgToken := Ssp_token env\<rparr>)
                                 \<lparr>G_SdCardStateMachine := P_SdCardDataTransfer\<rparr>)
                      else AdvanceSD_pu8RxBufferParser cfg 1
                             ((io SspReadByte s)\<lparr>SD_u32CurrentMsgToken := Ssp_token env\<rparr>))
                else s)
      in if IsTimeUp cfg (G_u32SystemTime1ms env) (SD_u32Timeout s1) (SD_READ_TOKEN_MS cfg)
         then s1\<lparr>SD_u8ErrorCode := SD_ERROR_TIMEOUT cfg,
                 G_SdCardStateMachine := P_SdFailedDataTransfer\<rparr>
         else s1)"

definition SdCardDataTransfer :: "sd_config \<Rightarrow> sd_env \<Rightarrow> sd_state \<Rightarrow> sd_state" where
  "SdCardDataTransfer cfg env s =
     (let s1 = (if QueryMessageStatus env (SD_u32CurrentMsgToken s) = COMPLETE
                then (io (SspRelease (SD_Ssp s)) (io SspDeAssertCS (s\<lparr>SD_CardState := SD_DATA_READY\<rparr>)))
                       \<lparr>SD_pu8RxBufferNextByte := 0, SD_pu8RxBufferParser := 0,
                        G_SdCardStateMachine := P_SdCardReadyIdle\<rparr>
                else s)
      in if IsTimeUp cfg (G_u32SystemTime1ms env) (SD_u32Timeout s1) (SD_SECTOR_READ_TIMEOUT_MS cfg)
         then s1\<lparr>SD_u8ErrorCode := SD_ERROR_TIMEOUT cfg, G_SdCardStateMachine := P_SdError\<rparr>
         else s1)"

definition SdFailedDataTransfer :: "sd_config \<Rightarrow> sd_env \<Rightarrow> sd_state \<Rightarrow> sd_state" where
  "SdFailedDataTransfer cfg env s =
     (FlushSdRxBuffer (io (SspRelease (SD_Ssp s)) (io SspDeAssertCS s)))
       \<lparr>SD_CardState := SD_CARD_ERROR,
        SD_u32Timeout := G_u32SystemTime1ms env,
        G_SdCardStateMachine := P_SdCardWaitSSP\<rparr>"

text \<open>The \<open>switch\<close> of \<open>SdError\<close> that selects the diagnostic text.\<close>

definition error_message :: "sd_config \<Rightarrow> u8 \<Rightarrow> string" where
  "error_message cfg c =
     (if c = SD_ERROR_TIMEOUT cfg then SD_au8CardError1
      else if c = SD_ERROR_CARD_VOLTAGE cfg then SD_au8CardError2
      else if c = SD_ERROR_BAD_RESPONSE cfg then SD_au8CardError3
      else if c = SD_ERROR_NO_TOKEN cfg then SD_au8CardError4
      else if c = SD_ERROR_NO_SD_TOKEN cfg then SD_au8CardError5
      else SD_au8CardError0)"

definition SdError :: "sd_config \<Rightarrow> sd_env \<Rightarrow> sd_state \<Rightarrow> sd_state" where
  "SdError cfg env s =
     (let s1 = FlushSdRxBuffer (io (SspRelease (SD_Ssp s)) (io SspDeAssertCS s));
          s2 = io (LedRequest LED_8HZ) (s1\<lparr>SD_CardStatusLed := LED_8HZ\<rparr>);
          s3 = io (DebugPrintf SD_au8CardError) s2;
          s4 = io (DebugPrintf (error_message cfg (SD_u8ErrorCode s3))) s3
      in s4\<lparr>SD_CardState := SD_NO_CARD,
             SD_u32Timeout := G_u32SystemTime1ms env,
             SD_WaitReturnState := P_SdIdleNoCard,
             G_SdCardStateMachine := P_SdCardWaitSSP\<rparr>)"

subsection \<open>One pass of the super loop and runs of the driver\<close>

text \<open>The super loop calls the handler that \<open>G_SdCardStateMachine\<close> points to.
  A call through the null pointer does not return to the driver; the model
  leaves the state as it is, and \<open>reachable_not_null\<close> below shows that no run
  gets there.\<close>

definition sd_tick :: "sd_config \<Rightarrow> sd_env \<Rightarrow> sd_state \<Rightarrow> sd_state" where
  "sd_tick cfg env s =
     (case G_SdCardStateMachine s of
        P_NULL \<Rightarrow> s
      | P_SdIdleNoCard \<Rightarrow> SdIdleNoCard cfg env s
      | P_SdCardDummies \<Rightarrow> SdCardDummies cfg env s
      | P_SdCardResponseCMD0 \<Rightarrow> SdCardResponseCMD0 cfg env s
      | P_SdCardResponseCMD8 \<Rightarrow> SdCardResponseCMD8 cfg env s
      | P_SdCardReadCMD8 \<Rightarrow> SdCardReadCMD8 cfg env s
      | P_SdCardACMD41 \<Rightarrow> SdCardACMD41 cfg env s
      | P_SdCardResponseACMD41 \<Rightarrow> SdCardResponseACMD41 cfg env s
      | P_SdCardResponseCMD58 \<Rightarrow> SdCardResponseCMD58 cfg env s
      | P_SdCardResponseCMD16 \<Rightarrow> SdCardResponseCMD16 cfg env s
      | P_SdCardReadCMD58 \<Rightarrow> SdCardReadCMD58 cfg env s
      | P_SdCardWaitReady \<Rightarrow> SdCardWaitReady cfg env s
      | P_SdCardWaitCommand \<Rightarrow> SdCardWaitCommand cfg env s
      | P_SdCardWaitSSP \<Rightarrow> SdCardWaitSSP cfg env s
      | P_SdCardReadyIdle \<Rightarrow> SdCardReadyIdle cfg env s
      | P_SdCardResponseCMD17 \<Rightarrow> SdCardResponseCMD17 cfg env s
      | P_SdCardWaitStartToken \<Rightarrow> SdCardWaitStartToken cfg env s
      | P_SdCardDataTransfer \<Rightarrow> SdCardDataTransfer cfg env s
      | P_SdFailedDataTransfer \<Rightarrow> SdFailedDataTransfer cfg env s
      | P_SdError \<Rightarrow> SdError cfg env s)"

text \<open>Modelled from the spec: the bus layer is outside the translated sources.
  The spec gives it the write cursor of the receive buffer, "advanced by the
  bus layer as bytes arrive"; the driver hands it the buffer's address and
  size in \<open>SD_sSsp0Config\<close>. One arriving byte is stored at the write cursor,
  which then moves on by one and wraps at the buffer size.\<close>

definition SspReceive :: "sd_config \<Rightarrow> u8 \<Rightarrow> sd_state \<Rightarrow> sd_state" where
  "SspReceive cfg b s =
     s\<lparr>SD_au8RxBuffer := (SD_au8RxBuffer s)(SD_pu8RxBufferNextByte s := b),
       SD_pu8RxBufferNextByte :=
         (if Suc (SD_pu8RxBufferNextByte s) = SDCARD_RX_BUFFER_SIZE cfg
          then 0 else Suc (SD_pu8RxBufferNextByte s))\<rparr>"

text \<open>What can happen to the driver between two observations: a pass of the
  super loop, a byte arriving from the bus, or a client calling one of the
  public functions.\<close>

datatype sd_event =
    Tick sd_env
  | Rx u8
  | CallReadBlock u32
  | CallWriteBlock u32
  | CallGetReadData

fun sd_step :: "sd_config \<Rightarrow> sd_state \<Rightarrow> sd_event \<Rightarrow> sd_state" where
  "sd_step cfg s (Tick env) = sd_tick cfg env s"
| "sd_step cfg s (Rx b) = SspReceive cfg b s"
| "sd_step cfg s (CallReadBlock a) = snd (SdReadBlock cfg a s)"
| "sd_step cfg s (CallWriteBlock a) = snd (SdWriteBlock a s)"
| "sd_step cfg s CallGetReadData = snd (snd (SdGetReadData (\<lambda>i. 0) s))"

definition sd_run :: "sd_config \<Rightarrow> sd_event list \<Rightarrow> sd_state" where
  "sd_run cfg evs = foldl (sd_step cfg) (SdCardInitialize cfg (power_on cfg)) evs"

inductive reachable :: "sd_config \<Rightarrow> sd_state \<Rightarrow> bool" for cfg :: sd_config where
  reach_init: "reachable cfg (SdCardInitialize cfg (power_on cfg))"
| reach_step: "reachable cfg s \<Longrightarrow> reachable cfg (sd_step cfg s ev)"

subsection \<open>Reading the driver's data\<close>



subsection \<open>A concrete configuration\<close>

text \<open>
  Modelled from the spec: \<open>IsTimeUp\<close> is defined outside the translated
  sources. The spec describes a deadline as "a captured reference time plus a
  duration", checked against a free-running millisecond counter: time is up
  when the time elapsed since the reference, computed in the counter's own
  32-bit arithmetic, has reached the duration.
\<close>

definition IsTimeUp_spec :: "u32 \<Rightarrow> u32 \<Rightarrow> u32 \<Rightarrow> bool" where
  "IsTimeUp_spec now ref period = (period \<le> now - ref)"

text \<open>
  One choice of the constants, used where a theorem is applied to concrete
  inputs: the protocol values are those of the SD card's SPI mode (R1 idle is
  \<open>0x01\<close>, the start-of-block token \<open>0xFE\<close>, the capacity bit of the first OCR
  byte \<open>0x40\<close>), the four flags are four distinct bits, and the periods are
  positive.
\<close>

definition example_config :: sd_config where
  "example_config =
     \<lparr>SDCARD_RX_BUFFER_SIZE = 1024,
      SD_CMD_SIZE = 7,
      SD_WAKEUP_BYTES = 10,
      SD_CMD_RETRIES = 10,
      SD_STATUS_IDLE = 0x01,
      SD_STATUS_READY = 0x00,
      SD_VHS_VALUE = 0x01,
      SD_CHECK_PATTERN = 0xAA,
      TOKEN_START_BLOCK = 0xFE,
      SD_OCR_CCS_BIT = 0x40,
      SD_CARD_INSERTED = 0x00000001,
      SD_TYPE_SD1 = 0x00000002,
      SD_TYPE_SD2 = 0x00000004,
      SD_CARD_HC = 0x00000008,
      SD_CLEAR_CARD_TYPE_BITS = 0xFFFFFFF1,
      SD_SPI_WAIT_TIME_MS = 100,
      SD_WAIT_TIME = 500,
      SD_READ_TOKEN_MS = 3000,
      SD_SECTOR_READ_TIMEOUT_MS = 5000,
      SD_ERROR_TIMEOUT = 1,
      SD_ERROR_CARD_VOLTAGE = 2,
      SD_ERROR_BAD_RESPONSE = 3,
      SD_ERROR_NO_TOKEN = 4,
      SD_ERROR_NO_SD_TOKEN = 5,
      SD_HOST_CMD = 0x40,
      SD_CMD0 = 0,
      SD_CMD8 = 8,
      SD_CMD16 = 16,
      SD_CMD17 = 17,
      SD_CMD55 = 55,
      SD_CMD58 = 58,
      SD_ACMD41 = 41,
      SD_CMD0_CRC = 0x95,
      SD_CMD8_CRC = 0x87,
      SD_NO_CRC = 0xFF,
      SSP_DUMMY_BYTE = 0xFF,
      IsTimeUp = IsTimeUp_spec\<rparr>"

text \<open>Two answers of the collaborators at time \<open>t\<close>: a card is in the slot,
  the bus is granted, every submission gets a token and every transfer asked
  about is complete; or the slot is empty and nothing completes.\<close>

definition env_ok :: "u32 \<Rightarrow> sd_env" where
  "env_ok t =
     \<lparr>FIOPIN_SD_DET = False, G_u32SystemTime1ms = t, SspRequest_result = Some 0,
      Ssp_token = 1, QueryMessageStatus = (\<lambda>tok. COMPLETE)\<rparr>"

definition env_removed :: "u32 \<Rightarrow> sd_env" where
  "env_removed t =
     \<lparr>FIOPIN_SD_DET = True, G_u32SystemTime1ms = t, SspRequest_result = None,
      Ssp_token = 0, QueryMessageStatus = (\<lambda>tok. PENDING)\<rparr>"

text \<open>A card that is ready and idle, as \<open>card_is_ready\<close> leaves it, used for the
  public functions.\<close>

definition idle_state :: sd_state where
  "idle_state =
     (power_on example_config)
       \<lparr>G_SdCardStateMachine := P_SdCardReadyIdle, SD_CardState := SD_IDLE,
        SD_u32Flags := 0x00000003\<rparr>"

subsection \<open>Card-type flags and what a detection cycle has seen\<close>

text \<open>
  The flag masks are parameters. What the driver relies on is that the
  high-capacity bit exists, that \<open>SD_CLEAR_CARD_TYPE_BITS\<close> clears it and the
  version-2 bit, and that setting or clearing one of the other flags does not
  touch the high-capacity bit.
\<close>

definition flags_ok :: "sd_config \<Rightarrow> bool" where
  "flags_ok cfg \<longleftrightarrow>
     SD_CARD_HC cfg \<noteq> 0 \<and>
     SD_CLEAR_CARD_TYPE_BITS cfg AND SD_CARD_HC cfg = 0 \<and>
     SD_CLEAR_CARD_TYPE_BITS cfg AND SD_TYPE_SD2 cfg = 0 \<and>
     SD_CARD_INSERTED cfg AND SD_CARD_HC cfg = 0 \<and>
     SD_TYPE_SD1 cfg AND SD_CARD_HC cfg = 0 \<and>
     SD_TYPE_SD2 cfg AND SD_CARD_HC cfg = 0"

definition HighCapacity :: "sd_config \<Rightarrow> sd_state \<Rightarrow> bool" where
  "HighCapacity cfg s \<longleftrightarrow> SD_u32Flags s AND SD_CARD_HC cfg \<noteq> 0"

definition TypeV2 :: "sd_config \<Rightarrow> sd_state \<Rightarrow> bool" where
  "TypeV2 cfg s \<longleftrightarrow> SD_u32Flags s AND SD_TYPE_SD2 cfg \<noteq> 0"

text \<open>
  A record of what the handlers have read from the card in the current
  detection cycle. It is not part of the driver: it is computed from the state
  and the inputs of each pass, beside the driver. A cycle starts on the pass
  of \<open>SdIdleNoCard\<close> that finds a card and gets the bus (the pass that clears
  the type flags). \<open>cmd8_echo_ok\<close> is set by a pass of \<open>SdCardReadCMD8\<close> on
  which the four-byte read is complete: it tells whether the third and fourth
  byte from the parse cursor are the voltage code and the check pattern.
  \<open>ocr_ccs_set\<close> is set by a pass of \<open>SdCardReadCMD58\<close> on which the read is
  complete: it tells whether the byte at the parse cursor has the capacity bit.
\<close>

record init_obs =
  cmd8_echo_ok :: bool
  ocr_ccs_set :: bool

definition observe :: "sd_config \<Rightarrow> sd_env \<Rightarrow> sd_state \<Rightarrow> init_obs \<Rightarrow> init_obs" where
  "observe cfg env s ob =
     (if G_SdCardStateMachine s = P_SdIdleNoCard \<and> \<not> FIOPIN_SD_DET env \<and>
         SspRequest_result env \<noteq> None
      then \<lparr>cmd8_echo_ok = False, ocr_ccs_set = False\<rparr>
      else if G_SdCardStateMachine s = P_SdCardReadCMD8 \<and>
              QueryMessageStatus env (SD_u32CurrentMsgToken s) = COMPLETE
      then ob\<lparr>cmd8_echo_ok :=
                (rx_at_parser (AdvanceSD_pu8RxBufferParser cfg 2 s) = SD_VHS_VALUE cfg \<and>
                 rx_at_parser (AdvanceSD_pu8RxBufferParser cfg 1 (AdvanceSD_pu8RxBufferParser cfg 2 s))
                   = SD_CHECK_PATTERN cfg)\<rparr>
      else if G_SdCardStateMachine s = P_SdCardReadCMD58 \<and>
              QueryMessageStatus env (SD_u32CurrentMsgToken s) = COMPLETE
      then ob\<lparr>ocr_ccs_set := (rx_at_parser s AND SD_OCR_CCS_BIT cfg \<noteq> 0)\<rparr>
      else ob)"

fun obs_step :: "sd_config \<Rightarrow> sd_state \<times> init_obs \<Rightarrow> sd_event \<Rightarrow> sd_state \<times> init_obs" where
  "obs_step cfg (s, ob) (Tick env) = (sd_tick cfg env s, observe cfg env s ob)"
| "obs_step cfg (s, ob) ev = (sd_step cfg s ev, ob)"

definition obs_run :: "sd_config \<Rightarrow> sd_event list \<Rightarrow> sd_state \<times> init_obs" where
  "obs_run cfg evs =
     foldl (obs_step cfg)
       (SdCardInitialize cfg (power_on cfg), \<lparr>cmd8_echo_ok = False, ocr_ccs_set = False\<rparr>) evs"

inductive observed :: "sd_config \<Rightarrow> sd_state \<times> init_obs \<Rightarrow> bool" for cfg :: sd_config where
  observed_init:
    "observed cfg (SdCardInitialize cfg (power_on cfg), \<lparr>cmd8_echo_ok = False, ocr_ccs_set = False\<rparr>)"
| observed_step: "observed cfg so \<Longrightarrow> observed cfg (obs_step cfg so ev)"


text \<open>The machine is in one of the handlers \<open>R\<close>, or inside a command whose
  response one of them will process.\<close>

definition waiting_for :: "sd_state \<Rightarrow> fnCode_type set \<Rightarrow> bool" where
  "waiting_for s R \<longleftrightarrow>
     G_SdCardStateMachine s \<in> R \<or>
     ((G_SdCardStateMachine s = P_SdCardWaitReady \<or> G_SdCardStateMachine s = P_SdCardWaitCommand) \<and>
      SD_WaitReturnState s \<in> R)"

text \<open>What every run keeps true of the two function pointers.\<close>

definition return_inv :: "sd_state \<Rightarrow> bool" where
  "return_inv s \<longleftrightarrow>
     G_SdCardStateMachine s \<noteq> P_NULL \<and>
     (SD_WaitReturnState s = P_NULL \<longrightarrow>
        G_SdCardStateMachine s \<in> {P_SdIdleNoCard, P_SdCardDummies, P_SdError}) \<and>
     (G_SdCardStateMachine s = P_SdCardWaitSSP \<longrightarrow>
        SD_WaitReturnState s \<in> {P_SdIdleNoCard, P_SdCardReadyIdle, P_SdCardResponseCMD17}) \<and>
     (G_SdCardStateMachine s \<in> {P_SdCardResponseCMD17, P_SdCardWaitStartToken,
                                  P_SdCardDataTransfer, P_SdFailedDataTransfer}
        \<longrightarrow> SD_WaitReturnState s = P_SdCardResponseCMD17) \<and>
     SD_WaitReturnState s \<in>
       {P_NULL, P_SdIdleNoCard, P_SdCardResponseCMD0, P_SdCardResponseCMD8, P_SdCardACMD41,
        P_SdCardResponseACMD41, P_SdCardResponseCMD58, P_SdCardResponseCMD16,
        P_SdCardReadyIdle, P_SdCardResponseCMD17}"

text \<open>What every run keeps true of the flags and of what the cycle has seen.\<close>

definition flag_inv :: "sd_config \<Rightarrow> sd_state \<Rightarrow> init_obs \<Rightarrow> bool" where
  "flag_inv cfg s ob \<longleftrightarrow>
     (HighCapacity cfg s \<longrightarrow> cmd8_echo_ok ob \<and> ocr_ccs_set ob) \<and>
     (waiting_for s {P_SdCardDummies, P_SdCardResponseCMD0, P_SdCardResponseCMD8}
        \<longrightarrow> \<not> TypeV2 cfg s \<and> \<not> HighCapacity cfg s) \<and>
     (G_SdCardStateMachine s = P_SdCardReadCMD8 \<longrightarrow> \<not> HighCapacity cfg s) \<and>
     (waiting_for s {P_SdCardACMD41, P_SdCardResponseACMD41} \<and> TypeV2 cfg s \<longrightarrow> cmd8_echo_ok ob) \<and>
     (waiting_for s {P_SdCardResponseCMD58, P_SdCardReadCMD58} \<longrightarrow> cmd8_echo_ok ob)"

definition init_inv :: "sd_config \<Rightarrow> sd_state \<Rightarrow> init_obs \<Rightarrow> bool" where
  "init_inv cfg s ob \<longleftrightarrow> return_inv s \<and> (flags_ok cfg \<longrightarrow> flag_inv cfg s ob)"

text \<open>Both cursors address bytes of the receive buffer, and the two writable
  command arrays have their seven bytes.\<close>

definition cursors_in_buffer :: "sd_config \<Rightarrow> sd_state \<Rightarrow> bool" where
  "cursors_in_buffer cfg s \<longleftrightarrow>
     SD_pu8RxBufferParser s < SDCARD_RX_BUFFER_SIZE cfg \<and>
     SD_pu8RxBufferNextByte s < SDCARD_RX_BUFFER_SIZE cfg \<and>
     length (SD_au8CMD17 s) = 7 \<and> length (SD_au8ACMD41 s) = 7"

text \<open>The period each wait state passes to its time check.\<close>

definition wait_timeout :: "sd_config \<Rightarrow> fnCode_type \<Rightarrow> u32 option" where
  "wait_timeout cfg f =
     (if f = P_SdCardWaitReady \<or> f = P_SdCardReadCMD8 \<or> f = P_SdCardReadCMD58
      then Some (SD_SPI_WAIT_TIME_MS cfg)
      else if f = P_SdCardWaitCommand then Some (SD_WAIT_TIME cfg)
      else if f = P_SdCardWaitStartToken then Some (SD_READ_TOKEN_MS cfg)
      else if f = P_SdCardDataTransfer then Some (SD_SECTOR_READ_TIMEOUT_MS cfg)
      else None)"

subsection \<open>Concrete runs\<close>

text \<open>
  Pieces of a run at time \<open>t\<close>. \<open>ready_then r t\<close>: the card answers the ready
  poll with \<open>0xFF\<close>, \<open>SdCardWaitReady\<close> sends the frame, seven bytes come back
  of which the last is the R1 response \<open>r\<close>, and \<open>SdCardWaitCommand\<close> hands over
  to the response handler. \<open>wake t\<close>: a card is found, the dummy bytes are
  read, CMD0 is answered "idle" and \<open>SdCardResponseCMD0\<close> issues CMD8.
  \<open>v2_echo t\<close>: CMD8 is answered "idle", the four echo bytes arrive with the
  expected voltage code and check pattern, and \<open>SdCardReadCMD8\<close> issues CMD55.
  \<open>v1_reject t\<close>: CMD8 is answered "illegal command" and \<open>SdCardResponseCMD8\<close>
  issues CMD55. \<open>acmd41 t\<close>: CMD55 is answered "idle" and \<open>SdCardACMD41\<close>
  issues ACMD41. \<open>answered r t\<close>: the command in flight is answered \<open>r\<close> and
  its response handler runs.
\<close>

definition ready_then :: "u8 \<Rightarrow> u32 \<Rightarrow> sd_event list" where
  "ready_then r t =
     [Rx 0xFF, Tick (env_ok t)] @ map Rx [0xFF, 0xFF, 0xFF, 0xFF, 0xFF, 0xFF, r] @ [Tick (env_ok t)]"

definition answered :: "u8 \<Rightarrow> u32 \<Rightarrow> sd_event list" where
  "answered r t = ready_then r t @ [Tick (env_ok t)]"

definition wake :: "u32 \<Rightarrow> sd_event list" where
  "wake t =
     [Tick (env_ok t)] @
     map Rx [0xFF, 0xFF, 0xFF, 0xFF, 0xFF, 0xFF, 0xFF, 0xFF, 0xFF, 0xFF] @
     [Tick (env_ok t)] @ answered 0x01 t"

definition v2_echo :: "u32 \<Rightarrow> sd_event list" where
  "v2_echo t = answered 0x01 t @ map Rx [0x00, 0x00, 0x01, 0xAA] @ [Tick (env_ok t)]"

definition v1_reject :: "u32 \<Rightarrow> sd_event list" where
  "v1_reject t = answered 0x05 t"

definition acmd41 :: "u32 \<Rightarrow> sd_event list" where
  "acmd41 t = answered 0x01 t"

text \<open>A version-2 card is taken as far as its first ACMD41 and pulled out; the
  command times out, the error path runs, and after the settle wait a
  version-1 card is found and taken as far as its first ACMD41, whose frame
  \<open>SdCardWaitReady\<close> then sends.\<close>

definition v2_then_v1 :: "sd_event list" where
  "v2_then_v1 =
     wake 0 @ v2_echo 0 @ acmd41 0 @
     [Tick (env_removed 1000), Tick (env_removed 1000), Tick (env_removed 2000)] @
     wake 2000 @ v1_reject 2000 @ acmd41 2000 @ [Rx 0xFF, Tick (env_ok 2000)]"


text \<open>A version-1 card is initialised, a client asks for sector 100, and the card
  answers CMD17 with an error.\<close>

definition v1_ready :: "sd_event list" where
  "v1_ready = wake 0 @ v1_reject 0 @ acmd41 0 @ answered 0x00 0 @ answered 0x00 0"

definition failed_read :: "sd_event list" where
  "failed_read = v1_ready @ [CallReadBlock 100, Tick (env_ok 0)] @ answered 0x04 0"

text \<open>The driver waiting for the card to be ready for CMD0, the poll started at
  time 0; the polled byte has arrived and is \<open>b\<close>.\<close>

definition polling :: "u8 \<Rightarrow> sd_event list" where
  "polling b =
     [Tick (env_ok 0)] @
     map Rx [0xFF, 0xFF, 0xFF, 0xFF, 0xFF, 0xFF, 0xFF, 0xFF, 0xFF, 0xFF] @
     [Tick (env_ok 0), Rx b]"

text \<open>The states these runs end in, and the fields of a state that the
  properties below look at.\<close>

definition polling_state :: "u8 \<Rightarrow> sd_state" where
  "polling_state b = sd_run example_config (polling b)"


definition failed_state :: sd_state where
  "failed_state = sd_run example_config failed_read"

definition swapped_state :: sd_state where
  "swapped_state = sd_run example_config v2_then_v1"

text \<open>The version-1 card answers CMD17 "ready" instead: the driver waits for the
  start-of-block token; then the token arrives and the driver waits for the
  block. And the version-2 card of \<open>v2_until_ocr\<close> after the pass that reads
  its OCR in time.\<close>

definition read_started :: "sd_event list" where
  "read_started = v1_ready @ [CallReadBlock 100, Tick (env_ok 0)] @ answered 0x00 0"

definition token_state :: sd_state where
  "token_state = sd_run example_config read_started"

definition transfer_state :: sd_state where
  "transfer_state = sd_run example_config (read_started @ [Rx 0xFE, Tick (env_ok 0)])"


definition snapshot ::
  "sd_state \<Rightarrow> (fnCode_type \<times> fnCode_type \<times> SdCardStateType) \<times> (u32 \<times> u8 \<times> u32) \<times>
                (u8 \<times> io_call) \<times> (sd_cmd \<times> u8 list)" where
  "snapshot s =
     ((G_SdCardStateMachine s, SD_WaitReturnState s, SD_CardState s),
      (SD_u32Flags s, SD_u8ErrorCode s, SD_u32Timeout s),
      (rx_at_parser s, hd (io_log s)),
      (SD_NextCommand s, SD_au8ACMD41 s))"

section \<open>Properties\<close>

subsection \<open>Auxiliary facts\<close>

lemma advance_loop_mod:
  "p < sz \<Longrightarrow> advance_loop sz k p = (p + k) mod sz"
proof (induction k arbitrary: p)
  case 0
  then show ?case by simp
next
  case (Suc k)
  show ?case
  proof (cases "Suc p = sz")
    case True
    with Suc.prems have "advance_loop sz (Suc k) p = (0 + k) mod sz"
      using Suc.IH [of 0] by simp
    also have "\<dots> = (p + Suc k) mod sz"
      using True by (metis add_Suc_right add_Suc_shift mod_add_self1 add.commute add_0)
    finally show ?thesis .
  next
    case False
    with Suc.prems have "Suc p < sz" by simp
    then show ?thesis using False Suc.IH [of "Suc p"] by simp
  qed
qed

lemma copy_loop_eq:
  "copy_loop buf k i dst = (\<lambda>j. if i \<le> j \<and> j < i + k then buf j else dst j)"
  by (induction k arbitrary: i dst) (auto simp: fun_eq_iff)


lemmas handler_defs =
  SdIdleNoCard_def SdCardDummies_def SdCardResponseCMD0_def SdCardResponseCMD8_def
  SdCardReadCMD8_def SdCardACMD41_def SdCardResponseACMD41_def SdCardResponseCMD58_def
  SdCardResponseCMD16_def SdCardReadCMD58_def SdCardWaitReady_def SdCardWaitCommand_def
  SdCardWaitSSP_def SdCardReadyIdle_def SdCardResponseCMD17_def SdCardWaitStartToken_def
  SdCardDataTransfer_def SdFailedDataTransfer_def SdError_def

lemmas helper_defs =
  SdIsCardInserted_def SdCommand_def CheckTimeout_def AdvanceSD_pu8RxBufferParser_def
  FlushSdRxBuffer_def card_is_ready_def io_def rx_at_parser_def frame_of_def
  SspReceive_def SdReadBlock_def SdWriteBlock_def SdGetReadData_def

subsection \<open>The public functions\<close>

text \<open>
  C5. \<open>SdReadBlock\<close> returns true and sets the status to \<open>SD_READING\<close> if and
  only if the status is \<open>SD_IDLE\<close> beforehand; for any other status it returns
  false and leaves the whole driver state as it was. This holds for every
  status, every sector address and every configuration.
\<close>

theorem SdReadBlock_accepted_iff_idle:
  "((fst (SdReadBlock cfg a s) \<and> SD_CardState (snd (SdReadBlock cfg a s)) = SD_READING)
      \<longleftrightarrow> SD_CardState s = SD_IDLE) \<and>
   (SD_CardState s \<noteq> SD_IDLE \<longrightarrow> SdReadBlock cfg a s = (False, s))"
  by (simp add: SdReadBlock_def)

theorem SdReadBlock_accepted_iff_idle_witness:
  "SD_CardState idle_state = SD_IDLE \<and>
   fst (SdReadBlock example_config 100 idle_state) \<and>
   SD_CardState (snd (SdReadBlock example_config 100 idle_state)) = SD_READING \<and>
   SD_CardState (power_on example_config) \<noteq> SD_IDLE \<and>
   SdReadBlock example_config 100 (power_on example_config) = (False, power_on example_config)"
  using SdReadBlock_accepted_iff_idle [of example_config 100 idle_state]
        SdReadBlock_accepted_iff_idle [of example_config 100 "power_on example_config"]
  by (simp add: idle_state_def power_on_def)



text \<open>
  C7. \<open>SdGetReadData\<close> copies receive buffer bytes 0 to 511, in order, to the
  first 512 bytes of the destination (and writes nothing beyond them), sets
  the status to \<open>SD_IDLE\<close> and returns true if and only if the status is
  \<open>SD_DATA_READY\<close> beforehand; for any other status it returns false and
  leaves the destination and the driver state as they were.
\<close>

theorem SdGetReadData_copies_iff_data_ready:
  "(SD_CardState s = SD_DATA_READY \<longrightarrow>
      SdGetReadData dst s =
        (True, (\<lambda>i. if i < 512 then SD_au8RxBuffer s i else dst i), s\<lparr>SD_CardState := SD_IDLE\<rparr>)) \<and>
   (SD_CardState s \<noteq> SD_DATA_READY \<longrightarrow> SdGetReadData dst s = (False, dst, s)) \<and>
   (fst (SdGetReadData dst s) \<longleftrightarrow> SD_CardState s = SD_DATA_READY)"
  by (simp add: SdGetReadData_def copy_loop_eq)

theorem SdGetReadData_copies_iff_data_ready_witness:
  "SD_CardState (idle_state\<lparr>SD_CardState := SD_DATA_READY\<rparr>) = SD_DATA_READY \<and>
   fst (SdGetReadData (\<lambda>i. 0x55) (idle_state\<lparr>SD_CardState := SD_DATA_READY, SD_au8RxBuffer := (\<lambda>i. 0xA0)\<rparr>)) \<and>
   fst (snd (SdGetReadData (\<lambda>i. 0x55)
     (idle_state\<lparr>SD_CardState := SD_DATA_READY, SD_au8RxBuffer := (\<lambda>i. 0xA0)\<rparr>))) 511 = 0xA0 \<and>
   fst (snd (SdGetReadData (\<lambda>i. 0x55)
     (idle_state\<lparr>SD_CardState := SD_DATA_READY, SD_au8RxBuffer := (\<lambda>i. 0xA0)\<rparr>))) 512 = 0x55 \<and>
   SD_CardState (snd (snd (SdGetReadData (\<lambda>i. 0x55)
     (idle_state\<lparr>SD_CardState := SD_DATA_READY, SD_au8RxBuffer := (\<lambda>i. 0xA0)\<rparr>)))) = SD_IDLE \<and>
   SD_CardState idle_state \<noteq> SD_DATA_READY \<and>
   SdGetReadData (\<lambda>i. 0x55) idle_state = (False, (\<lambda>i. 0x55), idle_state)"
  using SdGetReadData_copies_iff_data_ready
          [of "idle_state\<lparr>SD_CardState := SD_DATA_READY, SD_au8RxBuffer := (\<lambda>i. 0xA0)\<rparr>" "\<lambda>i. 0x55"]
        SdGetReadData_copies_iff_data_ready [of idle_state "\<lambda>i. 0x55"]
  by (simp add: idle_state_def power_on_def)

subsection \<open>The parse cursor\<close>

text \<open>
  C9. From every position of the parse cursor inside the buffer and for every
  number of bytes \<open>n\<close>, \<open>AdvanceSD_pu8RxBufferParser\<close> leaves the cursor
  inside the buffer, at the start position plus \<open>n\<close> modulo the buffer size.
\<close>

theorem AdvanceSD_pu8RxBufferParser_stays_in_buffer:
  assumes "SD_pu8RxBufferParser s < SDCARD_RX_BUFFER_SIZE cfg"
  shows "SD_pu8RxBufferParser (AdvanceSD_pu8RxBufferParser cfg n s) < SDCARD_RX_BUFFER_SIZE cfg \<and>
         SD_pu8RxBufferParser (AdvanceSD_pu8RxBufferParser cfg n s) =
           (SD_pu8RxBufferParser s + unat n) mod SDCARD_RX_BUFFER_SIZE cfg"
  using assms by (simp add: AdvanceSD_pu8RxBufferParser_def advance_loop_mod)

theorem AdvanceSD_pu8RxBufferParser_stays_in_buffer_witness:
  "SD_pu8RxBufferParser (idle_state\<lparr>SD_pu8RxBufferParser := 1020\<rparr>) < SDCARD_RX_BUFFER_SIZE example_config \<and>
   SD_pu8RxBufferParser
     (AdvanceSD_pu8RxBufferParser example_config 7 (idle_state\<lparr>SD_pu8RxBufferParser := 1020\<rparr>)) = 3"
  using AdvanceSD_pu8RxBufferParser_stays_in_buffer
          [of "idle_state\<lparr>SD_pu8RxBufferParser := 1020\<rparr>" example_config 7]
  by (simp add: idle_state_def power_on_def example_config_def)

subsection \<open>How the helpers act on the pointers and the flags\<close>

lemma io_frame:
  "G_SdCardStateMachine (io c s) = G_SdCardStateMachine s"
  "SD_WaitReturnState (io c s) = SD_WaitReturnState s"
  "SD_u32Flags (io c s) = SD_u32Flags s"
  by (simp_all add: io_def)

lemma Advance_frame:
  "G_SdCardStateMachine (AdvanceSD_pu8RxBufferParser cfg n s) = G_SdCardStateMachine s"
  "SD_WaitReturnState (AdvanceSD_pu8RxBufferParser cfg n s) = SD_WaitReturnState s"
  "SD_u32Flags (AdvanceSD_pu8RxBufferParser cfg n s) = SD_u32Flags s"
  by (simp_all add: AdvanceSD_pu8RxBufferParser_def)

lemma Flush_frame:
  "G_SdCardStateMachine (FlushSdRxBuffer s) = G_SdCardStateMachine s"
  "SD_WaitReturnState (FlushSdRxBuffer s) = SD_WaitReturnState s"
  "SD_u32Flags (FlushSdRxBuffer s) = SD_u32Flags s"
  by (simp_all add: FlushSdRxBuffer_def)

lemma CheckTimeout_frame:
  "G_SdCardStateMachine (CheckTimeout cfg env t s) =
     (if IsTimeUp cfg (G_u32SystemTime1ms env) (SD_u32Timeout s) t then P_SdError
      else G_SdCardStateMachine s)"
  "SD_WaitReturnState (CheckTimeout cfg env t s) = SD_WaitReturnState s"
  "SD_u32Flags (CheckTimeout cfg env t s) = SD_u32Flags s"
  by (simp_all add: CheckTimeout_def)

lemma SdCommand_frame:
  "G_SdCardStateMachine (SdCommand cfg env c s) =
     (if Ssp_token env \<noteq> 0 then P_SdCardWaitReady else P_SdError)"
  "SD_WaitReturnState (SdCommand cfg env c s) = SD_WaitReturnState s"
  "SD_u32Flags (SdCommand cfg env c s) = SD_u32Flags s"
  by (simp_all add: SdCommand_def io_def Let_def)

lemma card_is_ready_frame:
  "G_SdCardStateMachine (card_is_ready s) = P_SdCardReadyIdle"
  "SD_WaitReturnState (card_is_ready s) = SD_WaitReturnState s"
  "SD_u32Flags (card_is_ready s) = SD_u32Flags s"
  by (simp_all add: card_is_ready_def io_def Let_def)

lemma rx_at_parser_frame:
  "rx_at_parser (s\<lparr>SD_u32Flags := f\<rparr>) = rx_at_parser s"
  by (simp add: rx_at_parser_def)

lemmas frames =
  io_frame Advance_frame Flush_frame CheckTimeout_frame SdCommand_frame card_is_ready_frame
  rx_at_parser_frame

subsection \<open>Masks\<close>

lemma and_mask_clear: "m AND k = 0 \<Longrightarrow> (f AND m) AND k = (0::u32)"
  by (simp add: and.assoc)

lemma or_mask_keep: "m AND k = 0 \<Longrightarrow> (f OR m) AND k = f AND (k::u32)"
  by (simp add: bit.conj_disj_distrib2)

lemma andnot_mask_keep:
  assumes "m AND k = (0::u32)"
  shows "(f AND NOT m) AND k = f AND k"
proof (rule bit_eqI)
  fix n :: nat
  have "\<not> (bit m n \<and> bit k n)"
    using assms by (metis bit_and_iff bit_0_eq bot_apply bot_bool_def)
  then show "bit ((f AND NOT m) AND k) n = bit (f AND k) n"
    by (auto simp: bit_simps dest: bit_imp_le_length)
qed

lemma andnot_self: "(f AND NOT k) AND k = (0::u32)"
  by (simp add: and.assoc)

lemma or_self_nonzero: "(k::u32) \<noteq> 0 \<Longrightarrow> (f OR k) AND k \<noteq> 0"
  by (simp add: bit.conj_disj_distrib2)

lemmas flag_simps =
  and_mask_clear or_mask_keep andnot_mask_keep andnot_self or_self_nonzero

lemmas inv_defs =
  init_inv_def return_inv_def flag_inv_def observe_def waiting_for_def
  HighCapacity_def TypeV2_def flags_ok_def

subsection \<open>Every handler keeps the invariant\<close>

lemma init_inv_SdIdleNoCard:
  assumes "init_inv cfg s ob" "G_SdCardStateMachine s = P_SdIdleNoCard"
  shows "init_inv cfg (SdIdleNoCard cfg env s) (observe cfg env s ob)"
  using assms
  by (auto simp: inv_defs SdIdleNoCard_def SdIsCardInserted_def Let_def frames flag_simps)

lemma init_inv_SdCardDummies:
  assumes "init_inv cfg s ob" "G_SdCardStateMachine s = P_SdCardDummies"
  shows "init_inv cfg (SdCardDummies cfg env s) (observe cfg env s ob)"
  using assms
  by (auto simp: inv_defs SdCardDummies_def SdIsCardInserted_def Let_def frames flag_simps)

lemma init_inv_SdCardResponseCMD0:
  assumes "init_inv cfg s ob" "G_SdCardStateMachine s = P_SdCardResponseCMD0"
  shows "init_inv cfg (SdCardResponseCMD0 cfg env s) (observe cfg env s ob)"
  using assms
  by (auto simp: inv_defs SdCardResponseCMD0_def SdIsCardInserted_def Let_def frames flag_simps)

lemma init_inv_SdCardResponseCMD8:
  assumes "init_inv cfg s ob" "G_SdCardStateMachine s = P_SdCardResponseCMD8"
  shows "init_inv cfg (SdCardResponseCMD8 cfg env s) (observe cfg env s ob)"
  using assms
  by (auto simp: inv_defs SdCardResponseCMD8_def SdIsCardInserted_def Let_def frames flag_simps)

lemma init_inv_SdCardReadCMD8:
  assumes "init_inv cfg s ob" "G_SdCardStateMachine s = P_SdCardReadCMD8"
  shows "init_inv cfg (SdCardReadCMD8 cfg env s) (observe cfg env s ob)"
  using assms
  by (auto simp: inv_defs SdCardReadCMD8_def SdIsCardInserted_def Let_def frames flag_simps)

lemma init_inv_SdCardACMD41:
  assumes "init_inv cfg s ob" "G_SdCardStateMachine s = P_SdCardACMD41"
  shows "init_inv cfg (SdCardACMD41 cfg env s) (observe cfg env s ob)"
  using assms
  by (auto simp: inv_defs SdCardACMD41_def SdIsCardInserted_def Let_def frames flag_simps)

lemma init_inv_SdCardResponseACMD41:
  assumes "init_inv cfg s ob" "G_SdCardStateMachine s = P_SdCardResponseACMD41"
  shows "init_inv cfg (SdCardResponseACMD41 cfg env s) (observe cfg env s ob)"
  using assms
  by (auto simp: inv_defs SdCardResponseACMD41_def SdIsCardInserted_def Let_def frames flag_simps)

lemma init_inv_SdCardResponseCMD58:
  assumes "init_inv cfg s ob" "G_SdCardStateMachine s = P_SdCardResponseCMD58"
  shows "init_inv cfg (SdCardResponseCMD58 cfg env s) (observe cfg env s ob)"
  using assms
  by (auto simp: inv_defs SdCardResponseCMD58_def SdIsCardInserted_def Let_def frames flag_simps)

lemma init_inv_SdCardResponseCMD16:
  assumes "init_inv cfg s ob" "G_SdCardStateMachine s = P_SdCardResponseCMD16"
  shows "init_inv cfg (SdCardResponseCMD16 cfg env s) (observe cfg env s ob)"
  using assms
  by (auto simp: inv_defs SdCardResponseCMD16_def SdIsCardInserted_def Let_def frames flag_simps)

lemma init_inv_SdCardReadCMD58:
  assumes "init_inv cfg s ob" "G_SdCardStateMachine s = P_SdCardReadCMD58"
  shows "init_inv cfg (SdCardReadCMD58 cfg env s) (observe cfg env s ob)"
  using assms
  by (auto simp: inv_defs SdCardReadCMD58_def SdIsCardInserted_def Let_def frames flag_simps)

lemma init_inv_SdCardWaitReady:
  assumes "init_inv cfg s ob" "G_SdCardStateMachine s = P_SdCardWaitReady"
  shows "init_inv cfg (SdCardWaitReady cfg env s) (observe cfg env s ob)"
  using assms
  by (auto simp: inv_defs SdCardWaitReady_def SdIsCardInserted_def Let_def frames flag_simps)

lemma init_inv_SdCardWaitCommand:
  assumes "init_inv cfg s ob" "G_SdCardStateMachine s = P_SdCardWaitCommand"
  shows "init_inv cfg (SdCardWaitCommand cfg env s) (observe cfg env s ob)"
  using assms
  by (cases "SD_WaitReturnState s")
     (auto simp: inv_defs SdCardWaitCommand_def SdIsCardInserted_def Let_def frames flag_simps)

lemma init_inv_SdCardWaitSSP:
  assumes "init_inv cfg s ob" "G_SdCardStateMachine s = P_SdCardWaitSSP"
  shows "init_inv cfg (SdCardWaitSSP cfg env s) (observe cfg env s ob)"
  using assms
  by (cases "SD_WaitReturnState s")
     (auto simp: inv_defs SdCardWaitSSP_def SdIsCardInserted_def Let_def frames flag_simps)

lemma init_inv_SdCardReadyIdle:
  assumes "init_inv cfg s ob" "G_SdCardStateMachine s = P_SdCardReadyIdle"
  shows "init_inv cfg (SdCardReadyIdle cfg env s) (observe cfg env s ob)"
  using assms
  by (cases "FIOPIN_SD_DET env"; cases "SD_CardState s")
     (auto simp: inv_defs SdCardReadyIdle_def SdIsCardInserted_def Let_def frames flag_simps)

lemma init_inv_SdCardResponseCMD17:
  assumes "init_inv cfg s ob" "G_SdCardStateMachine s = P_SdCardResponseCMD17"
  shows "init_inv cfg (SdCardResponseCMD17 cfg env s) (observe cfg env s ob)"
  using assms
  by (auto simp: inv_defs SdCardResponseCMD17_def SdIsCardInserted_def Let_def frames flag_simps)

lemma init_inv_SdCardWaitStartToken:
  assumes "init_inv cfg s ob" "G_SdCardStateMachine s = P_SdCardWaitStartToken"
  shows "init_inv cfg (SdCardWaitStartToken cfg env s) (observe cfg env s ob)"
  using assms
  by (auto simp: inv_defs SdCardWaitStartToken_def SdIsCardInserted_def Let_def frames flag_simps)

lemma init_inv_SdCardDataTransfer:
  assumes "init_inv cfg s ob" "G_SdCardStateMachine s = P_SdCardDataTransfer"
  shows "init_inv cfg (SdCardDataTransfer cfg env s) (observe cfg env s ob)"
  using assms
  by (auto simp: inv_defs SdCardDataTransfer_def SdIsCardInserted_def Let_def frames flag_simps)

lemma init_inv_SdFailedDataTransfer:
  assumes "init_inv cfg s ob" "G_SdCardStateMachine s = P_SdFailedDataTransfer"
  shows "init_inv cfg (SdFailedDataTransfer cfg env s) (observe cfg env s ob)"
  using assms
  by (auto simp: inv_defs SdFailedDataTransfer_def SdIsCardInserted_def Let_def frames flag_simps)

lemma init_inv_SdError:
  assumes "init_inv cfg s ob" "G_SdCardStateMachine s = P_SdError"
  shows "init_inv cfg (SdError cfg env s) (observe cfg env s ob)"
  using assms
  by (auto simp: inv_defs SdError_def SdIsCardInserted_def Let_def frames flag_simps)

lemmas init_inv_handlers =
  init_inv_SdIdleNoCard init_inv_SdCardDummies init_inv_SdCardResponseCMD0
  init_inv_SdCardResponseCMD8 init_inv_SdCardReadCMD8 init_inv_SdCardACMD41
  init_inv_SdCardResponseACMD41 init_inv_SdCardResponseCMD58 init_inv_SdCardResponseCMD16
  init_inv_SdCardReadCMD58 init_inv_SdCardWaitReady init_inv_SdCardWaitCommand
  init_inv_SdCardWaitSSP init_inv_SdCardReadyIdle init_inv_SdCardResponseCMD17
  init_inv_SdCardWaitStartToken init_inv_SdCardDataTransfer init_inv_SdFailedDataTransfer
  init_inv_SdError

lemma init_inv_tick:
  assumes "init_inv cfg s ob"
  shows "init_inv cfg (sd_tick cfg env s) (observe cfg env s ob)"
proof (cases "G_SdCardStateMachine s")
  case P_NULL
  with assms show ?thesis by (simp add: init_inv_def return_inv_def)
qed (simp_all add: sd_tick_def assms init_inv_handlers)

lemma fst_obs_step: "fst (obs_step cfg (s, ob) ev) = sd_step cfg s ev"
  by (cases ev) simp_all

lemma init_inv_step:
  assumes "init_inv cfg s ob"
  shows "init_inv cfg (fst (obs_step cfg (s, ob) ev)) (snd (obs_step cfg (s, ob) ev))"
proof (cases ev)
  case (Tick env)
  then show ?thesis using assms by (simp add: init_inv_tick)
qed (use assms in \<open>simp_all add: inv_defs SspReceive_def SdReadBlock_def SdWriteBlock_def
       SdGetReadData_def\<close>)

lemma init_inv_start:
  "init_inv cfg (SdCardInitialize cfg (power_on cfg)) \<lparr>cmd8_echo_ok = False, ocr_ccs_set = False\<rparr>"
  by (simp add: inv_defs SdCardInitialize_def power_on_def io_def Let_def)

lemma observed_init_inv:
  assumes "observed cfg so"
  shows "init_inv cfg (fst so) (snd so)"
  using assms
proof (induction rule: observed.induct)
  case observed_init
  show ?case by (simp add: init_inv_start)
next
  case (observed_step so ev)
  then show ?case using init_inv_step [of cfg "fst so" "snd so" ev] by simp
qed

lemma reachable_observed:
  assumes "reachable cfg s"
  shows "\<exists>ob. observed cfg (s, ob)"
  using assms
proof (induction rule: reachable.induct)
  case reach_init
  show ?case by (blast intro: observed_init)
next
  case (reach_step s ev)
  then obtain ob where "observed cfg (s, ob)" by blast
  then have "observed cfg (obs_step cfg (s, ob) ev)" by (rule observed_step)
  moreover have "obs_step cfg (s, ob) ev = (sd_step cfg s ev, snd (obs_step cfg (s, ob) ev))"
    using fst_obs_step [of cfg s ob ev] by (metis prod.collapse)
  ultimately show ?case by metis
qed

lemma reachable_return_inv:
  assumes "reachable cfg s"
  shows "return_inv s"
proof -
  from assms obtain ob where "observed cfg (s, ob)"
    using reachable_observed by blast
  then have "init_inv cfg s ob" using observed_init_inv by fastforce
  then show ?thesis by (simp add: init_inv_def)
qed

lemma reachable_not_null:
  "reachable cfg s \<Longrightarrow> G_SdCardStateMachine s \<noteq> P_NULL"
  using reachable_return_inv by (auto simp: return_inv_def)

lemma reachable_sd_run: "reachable cfg (sd_run cfg evs)"
  by (induction evs rule: rev_induct) (simp_all add: sd_run_def reach_init reach_step)


lemma tick_not_writing:
  "SD_CardState s \<noteq> SD_WRITING \<Longrightarrow> SD_CardState (sd_tick cfg env s) \<noteq> SD_WRITING"
  by (cases "G_SdCardStateMachine s")
     (simp_all add: sd_tick_def handler_defs helper_defs Let_def split: prod.splits)

lemma step_not_writing:
  "SD_CardState s \<noteq> SD_WRITING \<Longrightarrow> SD_CardState (sd_step cfg s ev) \<noteq> SD_WRITING"
  by (cases ev)
     (simp_all add: tick_not_writing SspReceive_def SdReadBlock_def SdWriteBlock_def SdGetReadData_def)

lemma reachable_not_writing:
  "reachable cfg s \<Longrightarrow> SD_CardState s \<noteq> SD_WRITING"
  by (induction rule: reachable.induct)
     (simp_all add: step_not_writing SdCardInitialize_def power_on_def io_def Let_def)

subsection \<open>Cursors and command arrays in every run\<close>

text \<open>Every read through the parse cursor is a read inside the receive buffer,
  and every write to a command array is a write inside it.\<close>

lemma advance_loop_less: "p < sz \<Longrightarrow> advance_loop sz k p < sz"
  by (simp add: advance_loop_mod)

lemma tick_cursors:
  "cursors_in_buffer cfg s \<Longrightarrow> cursors_in_buffer cfg (sd_tick cfg env s)"
  unfolding cursors_in_buffer_def
  by (cases "G_SdCardStateMachine s")
     (auto simp: sd_tick_def handler_defs helper_defs Let_def advance_loop_less
        simp del: advance_loop.simps split: prod.splits)

lemma step_cursors:
  assumes "cursors_in_buffer cfg s"
  shows "cursors_in_buffer cfg (sd_step cfg s ev)"
proof (cases ev)
  case (Tick env)
  then show ?thesis using assms by (simp add: tick_cursors)
qed (use assms in \<open>auto simp: cursors_in_buffer_def SspReceive_def SdReadBlock_def SdWriteBlock_def
       SdGetReadData_def\<close>)

lemma reachable_cursors:
  "reachable cfg s \<Longrightarrow> 0 < SDCARD_RX_BUFFER_SIZE cfg \<Longrightarrow> cursors_in_buffer cfg s"
proof (induction rule: reachable.induct)
  case reach_init
  then show ?case
    by (simp add: cursors_in_buffer_def SdCardInitialize_def power_on_def io_def Let_def
          SD_au8CMD17_init_def SD_au8ACMD41_init_def)
next
  case (reach_step s ev)
  then show ?case by (simp add: step_cursors)
qed

lemma tick_bit6:
  "SD_au8ACMD41 s ! 1 AND BIT6 \<noteq> 0 \<Longrightarrow> length (SD_au8ACMD41 s) = 7 \<Longrightarrow>
   SD_au8ACMD41 (sd_tick cfg env s) ! 1 AND BIT6 \<noteq> 0"
  by (cases "G_SdCardStateMachine s")
     (auto simp: sd_tick_def handler_defs helper_defs Let_def bit.conj_disj_distrib2 split: prod.splits)

lemma step_bit6:
  assumes "SD_au8ACMD41 s ! 1 AND BIT6 \<noteq> 0" "length (SD_au8ACMD41 s) = 7"
  shows "SD_au8ACMD41 (sd_step cfg s ev) ! 1 AND BIT6 \<noteq> 0"
proof (cases ev)
  case (Tick env)
  then show ?thesis using tick_bit6 [OF assms] by simp
qed (use assms in \<open>auto simp: SspReceive_def SdReadBlock_def SdWriteBlock_def SdGetReadData_def\<close>)

text \<open>Nothing clears bit 6 of byte 1 of the ACMD41 array once it is set.\<close>

lemma ACMD41_bit6_is_never_cleared:
  assumes "cursors_in_buffer cfg s" and "SD_au8ACMD41 s ! 1 AND BIT6 \<noteq> 0"
  shows "SD_au8ACMD41 (foldl (sd_step cfg) s evs) ! 1 AND BIT6 \<noteq> 0"
  using assms
proof (induction evs arbitrary: s)
  case Nil
  then show ?case by simp
next
  case (Cons ev evs)
  have len: "length (SD_au8ACMD41 s) = 7"
    using Cons.prems(1) by (simp add: cursors_in_buffer_def)
  have "cursors_in_buffer cfg (sd_step cfg s ev)"
    using Cons.prems(1) by (rule step_cursors)
  moreover have "SD_au8ACMD41 (sd_step cfg s ev) ! 1 AND BIT6 \<noteq> 0"
    using Cons.prems(2) len by (rule step_bit6)
  ultimately show ?case using Cons.IH by simp
qed

subsection \<open>Evaluating concrete runs\<close>

lemma init_state:
  "SdCardInitialize cfg (power_on cfg) =
     \<lparr>G_SdCardStateMachine = P_SdIdleNoCard,
      SD_u32Flags = 0,
      SD_CardState = SD_NO_CARD,
      SD_u8ErrorCode = 0,
      SD_WaitReturnState = P_NULL,
      SD_NextCommand = P_NO_CMD,
      SD_CardStatusLed = LED_OFF,
      SD_Ssp = None,
      SD_au8RxBuffer = (\<lambda>i. 0),
      SD_pu8RxBufferNextByte = 0,
      SD_pu8RxBufferParser = 0,
      SD_u32Timeout = 0,
      SD_u32CurrentMsgToken = 0,
      SD_u32Address = 0,
      SD_au8CMD17 = SD_au8CMD17_init cfg,
      SD_au8ACMD41 = SD_au8ACMD41_init cfg,
      u8Retries = SD_CMD_RETRIES cfg,
      io_log = [DebugPrintf (''SdCard task initialized'' @ nl_cr), SD_POWER_ON, LedRequest LED_OFF]\<rparr>"
  by (simp add: SdCardInitialize_def power_on_def io_def Let_def cong: if_cong)

lemmas run_defs =
  sd_run_def obs_run_def observe_def init_state sd_tick_def handler_defs helper_defs
  example_config_def IsTimeUp_spec_def env_ok_def env_removed_def
  ready_then_def answered_def wake_def v2_echo_def v1_reject_def acmd41_def
  SD_au8ACMD41_init_def SD_au8CMD17_init_def SD_au8CMD0_def SD_au8CMD8_def SD_au8CMD16_def
  SD_au8CMD55_def SD_au8CMD58_def BIT6_def BIT7_def Let_def advance_loop_mod snapshot_def

lemma polling_FF_snapshot:
  "snapshot (polling_state 0xFF) =
     ((P_SdCardWaitReady, P_SdCardResponseCMD0, SD_NO_CARD), (1, 0, 0), (0xFF, SspAssertCS),
      (P_CMD0, [0x69, 0, 0, 0, 0, 0xFF, 0xFF]))"
  by (simp add: polling_state_def polling_def run_defs)



lemma polling_FF_late_snapshot:
  "snapshot (sd_tick example_config (env_ok 1000) (polling_state 0xFF)) =
     ((P_SdCardWaitCommand, P_SdCardResponseCMD0, SD_NO_CARD), (1, 0, 1000),
      (0x00, SspWriteData 7 P_CMD0 [0x40, 0, 0, 0, 0, 0x95, 0xFF]),
      (P_CMD0, [0x69, 0, 0, 0, 0, 0xFF, 0xFF]))"
  by (simp add: polling_state_def polling_def run_defs)

lemma sending_snapshot:
  "snapshot (sd_tick example_config (env_ok 0) (polling_state 0xFF)) =
     ((P_SdCardWaitCommand, P_SdCardResponseCMD0, SD_NO_CARD), (1, 0, 0),
      (0x00, SspWriteData 7 P_CMD0 [0x40, 0, 0, 0, 0, 0x95, 0xFF]),
      (P_CMD0, [0x69, 0, 0, 0, 0, 0xFF, 0xFF]))"
  by (simp add: polling_state_def polling_def run_defs)

lemma failed_snapshot:
  "snapshot failed_state =
     ((P_SdFailedDataTransfer, P_SdCardResponseCMD17, SD_READING), (3, 3, 0),
      (0x00, SspWriteData 7 P_CMD17 [0x51, 0, 0, 0xC8, 0, 0xFF, 0xFF]),
      (P_CMD17, [0x69, 0, 0, 0, 0, 0xFF, 0xFF]))"
  by (simp add: failed_state_def failed_read_def v1_ready_def run_defs)

lemma swapped_snapshot:
  "snapshot swapped_state =
     ((P_SdCardWaitCommand, P_SdCardResponseACMD41, SD_NO_CARD), (1, 1, 2000),
      (0x00, SspWriteData 7 P_ACMD41 [0x69, 0x40, 0, 0, 0, 0xFF, 0xFF]),
      (P_ACMD41, [0x69, 0x40, 0, 0, 0, 0xFF, 0xFF]))"
  by (simp add: swapped_state_def v2_then_v1_def run_defs)



lemma token_snapshot:
  "snapshot token_state =
     ((P_SdCardWaitStartToken, P_SdCardResponseCMD17, SD_READING), (3, 0, 0), (0x00, SspReadByte),
      (P_CMD17, [0x69, 0, 0, 0, 0, 0xFF, 0xFF]))"
  by (simp add: token_state_def read_started_def v1_ready_def run_defs)

lemma transfer_snapshot:
  "snapshot transfer_state =
     ((P_SdCardDataTransfer, P_SdCardResponseCMD17, SD_READING), (3, 0, 0), (0xFF, SspReadData 514),
      (P_CMD17, [0x69, 0, 0, 0, 0, 0xFF, 0xFF]))"
  by (simp add: transfer_state_def read_started_def v1_ready_def run_defs)



lemma snapshot_fields:
  assumes "snapshot s = ((a, b, c), (d, e, f), (g, h), (i, j))"
  shows "G_SdCardStateMachine s = a" "SD_WaitReturnState s = b" "SD_CardState s = c"
    "SD_u32Flags s = d" "SD_u8ErrorCode s = e" "SD_u32Timeout s = f"
    "rx_at_parser s = g" "hd (io_log s) = h" "SD_NextCommand s = i" "SD_au8ACMD41 s = j"
  using assms by (simp_all add: snapshot_def)

subsection \<open>The command dispatcher\<close>




subsection \<open>Timeouts\<close>

text \<open>
  C8, as the code has it. If the deadline of a wait state has passed when a
  pass begins, the pass leaves that state. \<open>SdCardWaitCommand\<close> and
  \<open>SdCardDataTransfer\<close> go to the error state and \<open>SdCardWaitStartToken\<close> goes
  to the failed-transfer state, each with error code \<open>SD_ERROR_TIMEOUT\<close>.
  \<open>SdCardWaitReady\<close>, \<open>SdCardReadCMD8\<close> and \<open>SdCardReadCMD58\<close> go to the error
  state with \<open>SD_ERROR_TIMEOUT\<close> too, except when the transfer they wait for is
  complete on that pass and the handler starts the next step of the protocol,
  which restarts the time reference: then the machine is in the state of that
  next step (or in the error state because the submission was refused).
\<close>

theorem timeout_ends_the_wait:
  assumes "wait_timeout cfg (G_SdCardStateMachine s) = Some t"
      and "IsTimeUp cfg (G_u32SystemTime1ms env) (SD_u32Timeout s) t"
  shows "G_SdCardStateMachine (sd_tick cfg env s) \<noteq> G_SdCardStateMachine s \<and>
         (G_SdCardStateMachine s \<in> {P_SdCardWaitCommand, P_SdCardDataTransfer} \<longrightarrow>
            G_SdCardStateMachine (sd_tick cfg env s) = P_SdError \<and>
            SD_u8ErrorCode (sd_tick cfg env s) = SD_ERROR_TIMEOUT cfg) \<and>
         (G_SdCardStateMachine s = P_SdCardWaitStartToken \<longrightarrow>
            G_SdCardStateMachine (sd_tick cfg env s) = P_SdFailedDataTransfer \<and>
            SD_u8ErrorCode (sd_tick cfg env s) = SD_ERROR_TIMEOUT cfg) \<and>
         (G_SdCardStateMachine s \<in> {P_SdCardWaitReady, P_SdCardReadCMD8, P_SdCardReadCMD58} \<longrightarrow>
            (G_SdCardStateMachine (sd_tick cfg env s) = P_SdError \<and>
             SD_u8ErrorCode (sd_tick cfg env s) = SD_ERROR_TIMEOUT cfg) \<or>
            (QueryMessageStatus env (SD_u32CurrentMsgToken s) = COMPLETE \<and>
             SD_u32Timeout (sd_tick cfg env s) = G_u32SystemTime1ms env \<and>
             G_SdCardStateMachine (sd_tick cfg env s) \<in>
               {P_SdCardWaitReady, P_SdCardWaitCommand, P_SdError}))"
proof -
  consider "G_SdCardStateMachine s = P_SdCardWaitReady" "t = SD_SPI_WAIT_TIME_MS cfg"
    | "G_SdCardStateMachine s = P_SdCardReadCMD8" "t = SD_SPI_WAIT_TIME_MS cfg"
    | "G_SdCardStateMachine s = P_SdCardReadCMD58" "t = SD_SPI_WAIT_TIME_MS cfg"
    | "G_SdCardStateMachine s = P_SdCardWaitCommand" "t = SD_WAIT_TIME cfg"
    | "G_SdCardStateMachine s = P_SdCardWaitStartToken" "t = SD_READ_TOKEN_MS cfg"
    | "G_SdCardStateMachine s = P_SdCardDataTransfer" "t = SD_SECTOR_READ_TIMEOUT_MS cfg"
    using assms(1) by (auto simp: wait_timeout_def split: if_splits)
  then show ?thesis
  proof cases
    case 1
    with assms(2) show ?thesis
      by (simp add: sd_tick_def SdCardWaitReady_def CheckTimeout_def AdvanceSD_pu8RxBufferParser_def
            io_def Let_def)
  next
    case 2
    with assms(2) show ?thesis
      by (simp add: sd_tick_def SdCardReadCMD8_def CheckTimeout_def AdvanceSD_pu8RxBufferParser_def
            SdCommand_def rx_at_parser_def io_def Let_def)
  next
    case 3
    with assms(2) show ?thesis
      by (simp add: sd_tick_def SdCardReadCMD58_def CheckTimeout_def AdvanceSD_pu8RxBufferParser_def
            SdCommand_def card_is_ready_def rx_at_parser_def io_def Let_def)
  next
    case 4
    with assms(2) show ?thesis
      by (simp add: sd_tick_def SdCardWaitCommand_def AdvanceSD_pu8RxBufferParser_def io_def Let_def)
  next
    case 5
    with assms(2) show ?thesis
      by (simp add: sd_tick_def SdCardWaitStartToken_def AdvanceSD_pu8RxBufferParser_def io_def Let_def)
  next
    case 6
    with assms(2) show ?thesis
      by (simp add: sd_tick_def SdCardDataTransfer_def io_def Let_def)
  qed
qed

theorem timeout_ends_the_wait_witness:
  "wait_timeout example_config (G_SdCardStateMachine (polling_state 0xFF)) = Some 100 \<and>
   IsTimeUp example_config (G_u32SystemTime1ms (env_removed 9000)) (SD_u32Timeout (polling_state 0xFF)) 100 \<and>
   G_SdCardStateMachine (polling_state 0xFF) = P_SdCardWaitReady \<and>
   QueryMessageStatus (env_removed 9000) (SD_u32CurrentMsgToken (polling_state 0xFF)) \<noteq> COMPLETE \<and>
   G_SdCardStateMachine (sd_tick example_config (env_removed 9000) (polling_state 0xFF)) = P_SdError \<and>
   SD_u8ErrorCode (sd_tick example_config (env_removed 9000) (polling_state 0xFF))
     = SD_ERROR_TIMEOUT example_config \<and>
   G_SdCardStateMachine (sd_tick example_config (env_ok 0) (polling_state 0xFF)) = P_SdCardWaitCommand \<and>
   G_SdCardStateMachine
     (sd_tick example_config (env_removed 9000) (sd_tick example_config (env_ok 0) (polling_state 0xFF)))
     = P_SdError \<and>
   G_SdCardStateMachine token_state = P_SdCardWaitStartToken \<and>
   G_SdCardStateMachine (sd_tick example_config (env_removed 9000) token_state) = P_SdFailedDataTransfer \<and>
   SD_u8ErrorCode (sd_tick example_config (env_removed 9000) token_state) = SD_ERROR_TIMEOUT example_config \<and>
   G_SdCardStateMachine transfer_state = P_SdCardDataTransfer \<and>
   G_SdCardStateMachine (sd_tick example_config (env_removed 9000) transfer_state) = P_SdError"
proof -
  note f = snapshot_fields [OF polling_FF_snapshot]
  note g = snapshot_fields [OF sending_snapshot]
  note h = snapshot_fields [OF token_snapshot]
  note k = snapshot_fields [OF transfer_snapshot]
  have w: "wait_timeout example_config (G_SdCardStateMachine (polling_state 0xFF)) = Some 100"
    "wait_timeout example_config
       (G_SdCardStateMachine (sd_tick example_config (env_ok 0) (polling_state 0xFF))) = Some 500"
    "wait_timeout example_config (G_SdCardStateMachine token_state) = Some 3000"
    "wait_timeout example_config (G_SdCardStateMachine transfer_state) = Some 5000"
    unfolding f(1) g(1) h(1) k(1) by (simp_all add: wait_timeout_def example_config_def)
  have u: "IsTimeUp example_config (G_u32SystemTime1ms (env_removed 9000))
             (SD_u32Timeout (polling_state 0xFF)) 100"
    "IsTimeUp example_config (G_u32SystemTime1ms (env_removed 9000))
       (SD_u32Timeout (sd_tick example_config (env_ok 0) (polling_state 0xFF))) 500"
    "IsTimeUp example_config (G_u32SystemTime1ms (env_removed 9000)) (SD_u32Timeout token_state) 3000"
    "IsTimeUp example_config (G_u32SystemTime1ms (env_removed 9000)) (SD_u32Timeout transfer_state) 5000"
    unfolding f(6) g(6) h(6) k(6)
    by (simp_all add: example_config_def env_removed_def IsTimeUp_spec_def)
  have q: "QueryMessageStatus (env_removed 9000) (SD_u32CurrentMsgToken (polling_state 0xFF)) \<noteq> COMPLETE"
    by (simp add: env_removed_def)
  show ?thesis
    using timeout_ends_the_wait [OF w(1) u(1)] timeout_ends_the_wait [OF w(2) u(2)]
          timeout_ends_the_wait [OF w(3) u(3)] timeout_ends_the_wait [OF w(4) u(4)]
          w(1) u(1) q f(1) g(1) h(1) k(1)
    by simp
qed

text \<open>
  C8, as the specification words it (a pass that begins after the deadline
  always ends on an error path with the timeout code), does not hold: the
  poll for CMD0 started at time 0 and the period is 100 ms; at time 1000 the
  polled byte \<open>0xFF\<close> is there, and the pass sends the frame and goes to
  \<open>SdCardWaitCommand\<close> without recording a timeout.
\<close>

theorem timeout_with_completed_poll_goes_on:
  "G_SdCardStateMachine (polling_state 0xFF) = P_SdCardWaitReady \<and>
   wait_timeout example_config (G_SdCardStateMachine (polling_state 0xFF)) = Some 100 \<and>
   IsTimeUp example_config (G_u32SystemTime1ms (env_ok 1000)) (SD_u32Timeout (polling_state 0xFF)) 100 \<and>
   G_SdCardStateMachine (sd_tick example_config (env_ok 1000) (polling_state 0xFF)) = P_SdCardWaitCommand \<and>
   SD_u8ErrorCode (sd_tick example_config (env_ok 1000) (polling_state 0xFF))
     \<noteq> SD_ERROR_TIMEOUT example_config"
  using snapshot_fields [OF polling_FF_snapshot] snapshot_fields [OF polling_FF_late_snapshot]
  by (simp add: wait_timeout_def example_config_def env_ok_def IsTimeUp_spec_def)

subsection \<open>Recovery from a failed data transfer\<close>

text \<open>
  C2. In every run, a pass of \<open>SdFailedDataTransfer\<close> deasserts the chip
  select and releases the bus, flushes the receive buffer, sets the status to
  \<open>SD_CARD_ERROR\<close>, leaves the flags as they are and goes to the settle wait.
  It does not set \<open>SD_WaitReturnState\<close>, which in every run still holds
  \<open>SdCardResponseCMD17\<close> at that point: when the settle wait is over the
  machine is in \<open>SdCardResponseCMD17\<close>, not in \<open>SdCardReadyIdle\<close>.
\<close>

theorem failed_transfer_resumes_in_ResponseCMD17:
  assumes "reachable cfg s"
      and "G_SdCardStateMachine s = P_SdFailedDataTransfer"
      and "IsTimeUp cfg (G_u32SystemTime1ms env2) (G_u32SystemTime1ms env1) (SD_SPI_WAIT_TIME_MS cfg)"
  shows "io_log (sd_tick cfg env1 s) = SspRelease (SD_Ssp s) # SspDeAssertCS # io_log s \<and>
         SD_pu8RxBufferParser (sd_tick cfg env1 s) = SD_pu8RxBufferNextByte s \<and>
         SD_CardState (sd_tick cfg env1 s) = SD_CARD_ERROR \<and>
         G_SdCardStateMachine (sd_tick cfg env1 s) = P_SdCardWaitSSP \<and>
         SD_u32Flags (sd_tick cfg env1 s) = SD_u32Flags s \<and>
         G_SdCardStateMachine (sd_tick cfg env2 (sd_tick cfg env1 s)) = P_SdCardResponseCMD17 \<and>
         G_SdCardStateMachine (sd_tick cfg env2 (sd_tick cfg env1 s)) \<noteq> P_SdCardReadyIdle \<and>
         SD_u32Flags (sd_tick cfg env2 (sd_tick cfg env1 s)) = SD_u32Flags s"
proof -
  have "return_inv s" using assms(1) by (rule reachable_return_inv)
  with assms(2) have ret: "SD_WaitReturnState s = P_SdCardResponseCMD17"
    by (simp add: return_inv_def)
  have first: "sd_tick cfg env1 s =
      s\<lparr>SD_CardState := SD_CARD_ERROR, SD_pu8RxBufferParser := SD_pu8RxBufferNextByte s,
        SD_u32Timeout := G_u32SystemTime1ms env1, G_SdCardStateMachine := P_SdCardWaitSSP,
        io_log := SspRelease (SD_Ssp s) # SspDeAssertCS # io_log s\<rparr>"
    using assms(2) by (simp add: sd_tick_def SdFailedDataTransfer_def FlushSdRxBuffer_def io_def)
  show ?thesis
    unfolding first using ret assms(3)
    by (simp add: sd_tick_def SdCardWaitSSP_def io_def)
qed

theorem failed_transfer_resumes_in_ResponseCMD17_witness:
  "reachable example_config failed_state \<and>
   G_SdCardStateMachine failed_state = P_SdFailedDataTransfer \<and>
   IsTimeUp example_config (G_u32SystemTime1ms (env_ok 1000)) (G_u32SystemTime1ms (env_ok 0))
     (SD_SPI_WAIT_TIME_MS example_config) \<and>
   SD_CardState (sd_tick example_config (env_ok 0) failed_state) = SD_CARD_ERROR \<and>
   G_SdCardStateMachine (sd_tick example_config (env_ok 1000) (sd_tick example_config (env_ok 0) failed_state))
     = P_SdCardResponseCMD17"
proof -
  have r: "reachable example_config failed_state"
    unfolding failed_state_def by (rule reachable_sd_run)
  note f = snapshot_fields [OF failed_snapshot]
  have u: "IsTimeUp example_config (G_u32SystemTime1ms (env_ok 1000)) (G_u32SystemTime1ms (env_ok 0))
             (SD_SPI_WAIT_TIME_MS example_config)"
    by (simp add: example_config_def env_ok_def IsTimeUp_spec_def)
  show ?thesis
    using failed_transfer_resumes_in_ResponseCMD17 [OF r f(1) u] r f(1) u by simp
qed

subsection \<open>The ACMD41 argument\<close>

text \<open>
  C3. \<open>SdCardACMD41\<close> sets bit 6 of byte 1 of the ACMD41 array for a version-2
  card and nothing ever clears it. In the run \<open>v2_then_v1\<close> a version-2 card is
  replaced by a version-1 card: in the second detection cycle the version-2
  flag is clear, and the ACMD41 frame that \<open>SdCardWaitReady\<close> sends still has
  the bit set.
\<close>

theorem ACMD41_bit30_sent_to_version1_card:
  "\<not> TypeV2 example_config swapped_state \<and>
   hd (io_log swapped_state) = SspWriteData 7 P_ACMD41 [0x69, 0x40, 0, 0, 0, 0xFF, 0xFF] \<and>
   (SD_au8ACMD41 swapped_state ! 1) AND BIT6 \<noteq> 0"
  using snapshot_fields [OF swapped_snapshot]
  by (simp add: TypeV2_def example_config_def BIT6_def)

subsection \<open>Capacity detection\<close>




subsection \<open>The write path\<close>

text \<open>
  C10. \<open>SdWriteBlock\<close> returns false and leaves the state as it is; in every
  reachable state the status that \<open>SdGetStatus\<close> reports is not \<open>SD_WRITING\<close>;
  and the status that \<open>SdCardReadyIdle\<close> tests after its presence check is not
  \<open>SD_WRITING\<close> either, so its write branch is never taken.
\<close>

theorem status_is_never_writing:
  "SdWriteBlock a s = (False, s) \<and>
   (reachable cfg s \<longrightarrow>
      SdGetStatus s \<noteq> SD_WRITING \<and>
      SD_CardState (snd (SdIsCardInserted cfg env s)) \<noteq> SD_WRITING)"
  using reachable_not_writing [of cfg s]
  by (simp add: SdWriteBlock_def SdGetStatus_def SdIsCardInserted_def)

theorem status_is_never_writing_witness:
  "reachable example_config failed_state \<and>
   SdWriteBlock 7 failed_state = (False, failed_state) \<and>
   SdGetStatus failed_state \<noteq> SD_WRITING \<and>
   SdGetStatus failed_state = SD_READING"
proof -
  have r: "reachable example_config failed_state"
    unfolding failed_state_def by (rule reachable_sd_run)
  note f = snapshot_fields [OF failed_snapshot]
  show ?thesis
    using status_is_never_writing [of 7 failed_state example_config "env_ok 0"] r f(3)
    by (simp add: SdGetStatus_def)
qed

end
